theory Spec2Isabelle
  imports Main "HOL-Library.Sublist"
begin

section \<open>JavaScript values and the reads the nodes perform on them\<close>

text \<open>
  The library is TypeScript; at run time its inputs are JavaScript values (the
  parameters are typed \<^verbatim>\<open>any\<close> in most places). A value is one of the JSON shapes,
  \<^verbatim>\<open>undefined\<close>, or a built-in object of the runtime that a property read reaches
  through the prototype chain (\<^verbatim>\<open>({}).toString\<close> is a function, not \<^verbatim>\<open>undefined\<close>).
  Numbers are the safe integers; fractions are outside the model. An object is the
  list of its own properties, first binding of a key counting.
\<close>

datatype intrinsic =
    ObjectCtor
  | FunctionCtor
  | ObjectPrototype
  | FunctionPrototype
  | ObjectProtoFn string
  | FunctionProtoFn string
  | ObjectStaticFn string

datatype jsval =
    JUndefined
  | JNull
  | JBool bool
  | JNum int
  | JStr string
  | JArr "jsval list"
  | JObj "(string \<times> jsval) list"
  | JIntrinsic intrinsic

text \<open>
  What a \<^verbatim>\<open>throw\<close> carries: a \<^verbatim>\<open>TypeError\<close> raised by the engine (its wording is
  the engine's own and nothing depends on it), an \<^verbatim>\<open>Error\<close> built with a message,
  or any other thrown value.
\<close>

datatype js_error =
    TypeError string
  | JsError string
  | Thrown jsval

text \<open>
  The part of the runtime that the repository does not fix and this theory does not
  spell out is a parameter of every function: reads on arrays, strings, numbers and
  booleans (they go through the built-in prototypes of those types, none of which has
  a throwing accessor), identity of two objects, the comparisons and string
  conversions that coerce (string to number, object to primitive), and the call of a
  function compiled from a string.
\<close>

record host =
  prim_get :: "jsval \<Rightarrow> string \<Rightarrow> jsval"
  same_ref :: "jsval \<Rightarrow> jsval \<Rightarrow> bool"
  coerce_less :: "jsval \<Rightarrow> jsval \<Rightarrow> js_error + bool"
  coerce_greater :: "jsval \<Rightarrow> jsval \<Rightarrow> js_error + bool"
  coerce_string :: "jsval \<Rightarrow> js_error + string"
  run_function :: "jsval \<Rightarrow> jsval \<Rightarrow> js_error + jsval"

definition bind_err :: "js_error + 'a \<Rightarrow> ('a \<Rightarrow> js_error + 'b) \<Rightarrow> js_error + 'b" where
  "bind_err r f = (case r of Inl e \<Rightarrow> Inl e | Inr v \<Rightarrow> f v)"

fun truthy :: "jsval \<Rightarrow> bool" where
  "truthy JUndefined = False"
| "truthy JNull = False"
| "truthy (JBool b) = b"
| "truthy (JNum n) = (n \<noteq> 0)"
| "truthy (JStr s) = (s \<noteq> [])"
| "truthy (JArr xs) = True"
| "truthy (JObj kvs) = True"
| "truthy (JIntrinsic i) = True"

fun nullish :: "jsval \<Rightarrow> bool" where
  "nullish JUndefined = True"
| "nullish JNull = True"
| "nullish v = False"

text \<open>
  \<^verbatim>\<open>a === b\<close>: primitives by value, built-ins by which built-in they are, two
  objects or two arrays by identity, which the host decides.
\<close>

fun strict_eq :: "host \<Rightarrow> jsval \<Rightarrow> jsval \<Rightarrow> bool" where
  "strict_eq h (JObj a) (JObj b) = same_ref h (JObj a) (JObj b)"
| "strict_eq h (JArr a) (JArr b) = same_ref h (JArr a) (JArr b)"
| "strict_eq h a b = (a = b)"

subsection \<open>The built-in objects behind every plain object\<close>

text \<open>
  The own properties of \<^verbatim>\<open>Object.prototype\<close> and \<^verbatim>\<open>Function.prototype\<close> as ECMAScript
  lists them (with Annex B), and the static methods of \<^verbatim>\<open>Object\<close> (ECMAScript 2022).
\<close>

definition object_prototype_methods :: "string list" where
  "object_prototype_methods =
     [''hasOwnProperty'', ''isPrototypeOf'', ''propertyIsEnumerable'', ''toLocaleString'',
      ''toString'', ''valueOf'', ''__defineGetter__'', ''__defineSetter__'',
      ''__lookupGetter__'', ''__lookupSetter__'']"

definition function_prototype_methods :: "string list" where
  "function_prototype_methods = [''apply'', ''bind'', ''call'', ''toString'']"

definition object_static_methods :: "string list" where
  "object_static_methods =
     [''assign'', ''create'', ''defineProperties'', ''defineProperty'', ''entries'',
      ''freeze'', ''fromEntries'', ''getOwnPropertyDescriptor'',
      ''getOwnPropertyDescriptors'', ''getOwnPropertyNames'', ''getOwnPropertySymbols'',
      ''getPrototypeOf'', ''hasOwn'', ''is'', ''isExtensible'', ''isFrozen'', ''isSealed'',
      ''keys'', ''preventExtensions'', ''seal'', ''setPrototypeOf'', ''values'']"

text \<open>
  A read that reaches \<^verbatim>\<open>Object.prototype\<close>. The accessor \<^verbatim>\<open>__proto__\<close> answers with
  the prototype of the object the read started from, here \<open>parent\<close>.
\<close>

definition object_prototype_get :: "jsval \<Rightarrow> string \<Rightarrow> jsval" where
  "object_prototype_get parent k =
     (if k = ''constructor'' then JIntrinsic ObjectCtor
      else if k \<in> set object_prototype_methods then JIntrinsic (ObjectProtoFn k)
      else if k = ''__proto__'' then parent
      else JUndefined)"

fun intrinsic_name :: "intrinsic \<Rightarrow> string" where
  "intrinsic_name ObjectCtor = ''Object''"
| "intrinsic_name FunctionCtor = ''Function''"
| "intrinsic_name ObjectPrototype = ''''"
| "intrinsic_name FunctionPrototype = ''''"
| "intrinsic_name (ObjectProtoFn k) = k"
| "intrinsic_name (FunctionProtoFn k) = k"
| "intrinsic_name (ObjectStaticFn k) = k"

definition function_lengths :: "(string \<times> int) list" where
  "function_lengths =
     [(''hasOwnProperty'', 1), (''isPrototypeOf'', 1), (''propertyIsEnumerable'', 1),
      (''toLocaleString'', 0), (''toString'', 0), (''valueOf'', 0),
      (''__defineGetter__'', 2), (''__defineSetter__'', 2),
      (''__lookupGetter__'', 1), (''__lookupSetter__'', 1),
      (''apply'', 2), (''bind'', 1), (''call'', 1),
      (''assign'', 2), (''create'', 2), (''defineProperties'', 2), (''defineProperty'', 3),
      (''entries'', 1), (''freeze'', 1), (''fromEntries'', 1),
      (''getOwnPropertyDescriptor'', 2), (''getOwnPropertyDescriptors'', 1),
      (''getOwnPropertyNames'', 1), (''getOwnPropertySymbols'', 1),
      (''getPrototypeOf'', 1), (''hasOwn'', 2), (''is'', 2), (''isExtensible'', 1),
      (''isFrozen'', 1), (''isSealed'', 1), (''keys'', 1), (''preventExtensions'', 1),
      (''seal'', 1), (''setPrototypeOf'', 2), (''values'', 1)]"

fun intrinsic_length :: "intrinsic \<Rightarrow> int" where
  "intrinsic_length ObjectCtor = 1"
| "intrinsic_length FunctionCtor = 1"
| "intrinsic_length ObjectPrototype = 0"
| "intrinsic_length FunctionPrototype = 0"
| "intrinsic_length (ObjectProtoFn k) = (case map_of function_lengths k of Some n \<Rightarrow> n | None \<Rightarrow> 0)"
| "intrinsic_length (FunctionProtoFn k) = (case map_of function_lengths k of Some n \<Rightarrow> n | None \<Rightarrow> 0)"
| "intrinsic_length (ObjectStaticFn k) = (case map_of function_lengths k of Some n \<Rightarrow> n | None \<Rightarrow> 0)"

text \<open>
  A read on a built-in function that its own properties do not answer goes to
  \<^verbatim>\<open>Function.prototype\<close>, whose accessors \<^verbatim>\<open>caller\<close> and \<^verbatim>\<open>arguments\<close> throw a
  \<^verbatim>\<open>TypeError\<close> on every built-in, and from there to \<^verbatim>\<open>Object.prototype\<close>.
\<close>

definition function_prototype_get :: "intrinsic \<Rightarrow> string \<Rightarrow> js_error + jsval" where
  "function_prototype_get f k =
     (if k = ''caller'' \<or> k = ''arguments'' then
        Inl (TypeError ''caller, callee and arguments may not be accessed on strict mode functions'')
      else if k \<in> set function_prototype_methods then Inr (JIntrinsic (FunctionProtoFn k))
      else if k = ''constructor'' then Inr (JIntrinsic FunctionCtor)
      else Inr (object_prototype_get
                  (JIntrinsic (if f = FunctionPrototype then ObjectPrototype else FunctionPrototype)) k))"

definition intrinsic_get :: "intrinsic \<Rightarrow> string \<Rightarrow> js_error + jsval" where
  "intrinsic_get f k =
     (if f = ObjectPrototype then Inr (object_prototype_get JNull k)
      else if k = ''length'' then Inr (JNum (intrinsic_length f))
      else if k = ''name'' then Inr (JStr (intrinsic_name f))
      else if f = ObjectCtor \<and> k = ''prototype'' then Inr (JIntrinsic ObjectPrototype)
      else if f = FunctionCtor \<and> k = ''prototype'' then Inr (JIntrinsic FunctionPrototype)
      else if f = ObjectCtor \<and> k \<in> set object_static_methods then Inr (JIntrinsic (ObjectStaticFn k))
      else function_prototype_get f k)"

text \<open>\<^verbatim>\<open>obj[k]\<close> on a plain object: its own property, else what \<^verbatim>\<open>Object.prototype\<close> has.\<close>

definition obj_get :: "(string \<times> jsval) list \<Rightarrow> string \<Rightarrow> jsval" where
  "obj_get kvs k =
     (case map_of kvs k of
        Some v \<Rightarrow> v
      | None \<Rightarrow> object_prototype_get (JIntrinsic ObjectPrototype) k)"

text \<open>\<^verbatim>\<open>v[k]\<close> for any value: a read on \<^verbatim>\<open>null\<close> or \<^verbatim>\<open>undefined\<close> throws.\<close>

fun get_prop :: "host \<Rightarrow> jsval \<Rightarrow> string \<Rightarrow> js_error + jsval" where
  "get_prop h JUndefined k = Inl (TypeError (''Cannot read properties of undefined (reading '' @ k @ '')''))"
| "get_prop h JNull k = Inl (TypeError (''Cannot read properties of null (reading '' @ k @ '')''))"
| "get_prop h (JObj kvs) k = Inr (obj_get kvs k)"
| "get_prop h (JIntrinsic f) k = intrinsic_get f k"
| "get_prop h v k = Inr (prim_get h v k)"

text \<open>\<^verbatim>\<open>v?.[k]\<close>: the optional chain stops at \<^verbatim>\<open>null\<close> and \<^verbatim>\<open>undefined\<close>.\<close>

definition get_optional :: "host \<Rightarrow> jsval \<Rightarrow> string \<Rightarrow> js_error + jsval" where
  "get_optional h v k = (if nullish v then Inr JUndefined else get_prop h v k)"

section \<open>CompatibilityValidator\<close>

record check_result =
  level :: jsval
  valid :: bool

text \<open>The object literal \<^verbatim>\<open>matrix\<close> of \<^verbatim>\<open>CompatibilityValidator.check\<close>.\<close>

definition matrix :: "(string \<times> jsval) list" where
  "matrix =
     [(''postgresql-query'',
         JObj [(''data-filter'', JStr ''full''),
               (''field-mapper'', JStr ''full''),
               (''mongodb-operations'', JStr ''partial'')]),
      (''mongodb-operations'',
         JObj [(''data-filter'', JStr ''full''),
               (''field-mapper'', JStr ''full''),
               (''postgresql-query'', JStr ''partial''),
               (''mongodb-operations'', JStr ''full'')]),
      (''data-filter'',
         JObj [(''field-mapper'', JStr ''full''),
               (''mongodb-operations'', JStr ''full''),
               (''postgresql-query'', JStr ''partial'')]),
      (''field-mapper'',
         JObj [(''mongodb-operations'', JStr ''full''),
               (''postgresql-query'', JStr ''partial''),
               (''data-filter'', JStr ''full'')])]"

text \<open>
  \<^verbatim>\<open>const level = matrix[sourceType]?.[targetType] || 'none'\<close>, then
  \<^verbatim>\<open>return { level, valid: level !== 'none' }\<close>.
\<close>

definition check :: "host \<Rightarrow> string \<Rightarrow> string \<Rightarrow> js_error + check_result" where
  "check h sourceType targetType =
     bind_err (get_prop h (JObj matrix) sourceType) (\<lambda>row.
     bind_err (get_optional h row targetType) (\<lambda>entry.
       let lv = (if truthy entry then entry else JStr ''none'')
       in Inr \<lparr>level = lv, valid = (\<not> strict_eq h lv (JStr ''none''))\<rparr>))"

text \<open>The entry the table declares for a pair, if it declares one.\<close>

definition declared :: "string \<Rightarrow> string \<Rightarrow> jsval option" where
  "declared sourceType targetType =
     (case map_of matrix sourceType of
        Some (JObj row) \<Rightarrow> map_of row targetType
      | _ \<Rightarrow> None)"

text \<open>
  \<^verbatim>\<open>String(v)\<close> and the conversion inside a template literal. Primitives convert
  here; an array, an object or a built-in converts in the host (and may throw there:
  an object whose \<^verbatim>\<open>toString\<close> and \<^verbatim>\<open>valueOf\<close> are not callable has no primitive).
  A number prints as its decimal digits when it is a safe integer; beyond that range
  \<^verbatim>\<open>String(n)\<close> rounds and, from \<^verbatim>\<open>1e21\<close>, writes an exponent, which is the host's.
\<close>

definition digit_char :: "nat \<Rightarrow> char" where
  "digit_char d = ''0123456789'' ! d"

fun nat_digits :: "nat \<Rightarrow> string" where
  "nat_digits n = (if n < 10 then [digit_char n] else nat_digits (n div 10) @ [digit_char (n mod 10)])"

declare nat_digits.simps [simp del]

definition int_decimal :: "int \<Rightarrow> string" where
  "int_decimal n = (if n < 0 then CHR ''-'' # nat_digits (nat (- n)) else nat_digits (nat n))"

definition safe_integer :: "int \<Rightarrow> bool" where
  "safe_integer n = (- 9007199254740991 \<le> n \<and> n \<le> 9007199254740991)"

fun js_to_string :: "host \<Rightarrow> jsval \<Rightarrow> js_error + string" where
  "js_to_string h JUndefined = Inr ''undefined''"
| "js_to_string h JNull = Inr ''null''"
| "js_to_string h (JBool b) = Inr (if b then ''true'' else ''false'')"
| "js_to_string h (JNum n) = (if safe_integer n then Inr (int_decimal n) else coerce_string h (JNum n))"
| "js_to_string h (JStr s) = Inr s"
| "js_to_string h v = coerce_string h v"

datatype severity = SevError | SevWarning | SevInfo

record issue =
  severity :: severity
  message :: string

record compat_result =
  compatible :: bool
  issues :: "issue list"

text \<open>
  A pin descriptor \<^verbatim>\<open>{ type: string; pin: string; schema?: any }\<close>; an absent schema
  is \<^verbatim>\<open>undefined\<close>.
\<close>

record descriptor =
  node_type :: string
  pin :: string
  schema :: jsval

text \<open>The block under \<^verbatim>\<open>// Schema compatibility checks\<close>.\<close>

definition schema_issues :: "host \<Rightarrow> jsval \<Rightarrow> jsval \<Rightarrow> js_error + issue list" where
  "schema_issues h source_schema target_schema =
     (if truthy source_schema \<and> truthy target_schema then
        bind_err (get_prop h source_schema ''type'') (\<lambda>st.
        bind_err (get_prop h target_schema ''type'') (\<lambda>tt.
          if \<not> strict_eq h st tt \<and> \<not> strict_eq h st (JStr ''any'') \<and> \<not> strict_eq h tt (JStr ''any'') then
            bind_err (js_to_string h st) (\<lambda>a.
            bind_err (js_to_string h tt) (\<lambda>b.
              Inr [\<lparr>severity = SevWarning,
                    message = ''Schema type mismatch: source outputs '' @ [CHR 0x27] @ a @ [CHR 0x27]
                              @ '' but target expects '' @ [CHR 0x27] @ b @ [CHR 0x27]\<rparr>]))
          else Inr []))
      else Inr [])"

definition validateCompatibility :: "host \<Rightarrow> descriptor \<Rightarrow> descriptor \<Rightarrow> js_error + compat_result" where
  "validateCompatibility h source target =
     bind_err (check h (node_type source) (node_type target)) (\<lambda>basicCheck.
       let issues0 =
             (if \<not> valid basicCheck then
                [\<lparr>severity = SevError,
                  message = ''No compatibility rule found between '' @ node_type source
                            @ '' and '' @ node_type target\<rparr>]
              else [])
       in bind_err (schema_issues h (schema source) (schema target)) (\<lambda>warnings.
            let found = issues0 @ warnings
            in Inr \<lparr>compatible =
                       (valid basicCheck \<and> length (filter (\<lambda>i. severity i = SevError) found) = 0),
                     issues = found\<rparr>))"

section \<open>NodeRegistry\<close>

text \<open>
  A node instance as the registry reads it: the identity triple, the name of the class
  that built it (\<^verbatim>\<open>instance.constructor.name\<close>) and the configuration the base
  constructor kept.
\<close>

record node_instance =
  inst_type :: string
  inst_version :: string
  inst_category :: string
  inst_class :: string
  inst_config :: jsval

text \<open>
  \<^verbatim>\<open>NodeMetadata\<close>: the required fields, and the optional ones by name.
\<close>

record node_metadata =
  md_type :: string
  md_name :: string
  md_description :: string
  md_version :: string
  md_category :: string
  md_inputs :: "jsval list"
  md_outputs :: "jsval list"
  md_optional :: "(string \<times> jsval) list"

text \<open>
  A registered class: what \<^verbatim>\<open>new NodeClass(...args)\<close> does with its arguments, and
  the static \<^verbatim>\<open>getMetadata\<close> when the class has one (\<open>None\<close> when
  \<^verbatim>\<open>typeof NodeClass.getMetadata\<close> is not \<^verbatim>\<open>'function'\<close>), as the outcome of calling it.
\<close>

record node_class =
  construct :: "jsval list \<Rightarrow> js_error + node_instance"
  static_getMetadata :: "(js_error + node_metadata) option"

text \<open>
  \<^verbatim>\<open>private nodes: Map<string, any>\<close>. A JavaScript \<^verbatim>\<open>Map\<close> keeps its keys in the
  order of first insertion; \<^verbatim>\<open>set\<close> on a key it has replaces the value where it stands.
\<close>

type_synonym registry = "(string \<times> node_class) list"

fun map_set :: "('k \<times> 'v) list \<Rightarrow> 'k \<Rightarrow> 'v \<Rightarrow> ('k \<times> 'v) list" where
  "map_set [] k v = [(k, v)]"
| "map_set ((k', v') # rest) k v =
     (if k' = k then (k, v) # rest else (k', v') # map_set rest k v)"

definition register :: "registry \<Rightarrow> node_class \<Rightarrow> string \<Rightarrow> registry" where
  "register nodes nodeClass t = map_set nodes t nodeClass"

definition create :: "registry \<Rightarrow> string \<Rightarrow> jsval \<Rightarrow> js_error + node_instance" where
  "create nodes t config =
     (case map_of nodes t of
        None \<Rightarrow> Inl (JsError (''Node type '' @ [CHR 0x27] @ t @ [CHR 0x27] @ '' not found''))
      | Some NodeClass \<Rightarrow> construct NodeClass [config])"

definition getAvailableTypes :: "registry \<Rightarrow> string list" where
  "getAvailableTypes nodes = map fst nodes"

text \<open>\<^verbatim>\<open>name.replace(/Node$/, "")\<close>.\<close>

definition strip_node_suffix :: "string \<Rightarrow> string" where
  "strip_node_suffix name =
     (if 4 \<le> length name \<and> drop (length name - 4) name = ''Node''
      then take (length name - 4) name else name)"

definition getNodeMetadata :: "registry \<Rightarrow> string \<Rightarrow> node_metadata option" where
  "getNodeMetadata nodes t =
     (case map_of nodes t of
        None \<Rightarrow> None
      | Some NodeClass \<Rightarrow>
          (case static_getMetadata NodeClass of
             Some called \<Rightarrow> (case called of Inr md \<Rightarrow> Some md | Inl e \<Rightarrow> None)
           | None \<Rightarrow>
               (case construct NodeClass [] of
                  Inl e \<Rightarrow> None
                | Inr inst \<Rightarrow>
                    Some \<lparr>md_type = (if inst_type inst \<noteq> [] then inst_type inst else t),
                          md_name = strip_node_suffix (inst_class inst),
                          md_description = ''Auto-generated metadata for '' @ t,
                          md_version = (if inst_version inst \<noteq> [] then inst_version inst else ''1.0.0''),
                          md_category = (if inst_category inst \<noteq> [] then inst_category inst
                                         else ''transformation''),
                          md_inputs = [],
                          md_outputs = [],
                          md_optional = []\<rparr>)))"

text \<open>A run of \<^verbatim>\<open>register\<close> calls, in order, each \<open>(nodeClass, type)\<close>.\<close>

fun register_all :: "registry \<Rightarrow> (node_class \<times> string) list \<Rightarrow> registry" where
  "register_all nodes [] = nodes"
| "register_all nodes ((nodeClass, t) # calls) = register_all (register nodes nodeClass t) calls"

section \<open>The result envelope\<close>

text \<open>
  \<^verbatim>\<open>NodeResult\<close>. An \<^verbatim>\<open>async execute\<close> answers with a promise: \<open>Inr\<close> is the envelope
  it resolves to, \<open>Inl\<close> the exception it rejects with. \<^verbatim>\<open>Date.now()\<close> is read at
  the start and before the return; the two readings are arguments.
\<close>

record node_metrics =
  executionTime :: int
  recordsProcessed :: jsval

record envelope =
  success :: bool
  data :: "jsval option"
  error :: "string option"
  metrics :: "node_metrics option"

text \<open>\<^verbatim>\<open>error instanceof Error ? error.message : fallback\<close>.\<close>

fun catch_message :: "string \<Rightarrow> js_error \<Rightarrow> string" where
  "catch_message fallback (TypeError m) = m"
| "catch_message fallback (JsError m) = m"
| "catch_message fallback (Thrown v) = fallback"

text \<open>\<^verbatim>\<open>BaseNode.validate\<close>: \<^verbatim>\<open>input !== null && input !== undefined\<close>.\<close>

definition BaseNode_validate :: "jsval \<Rightarrow> bool" where
  "BaseNode_validate input = (input \<noteq> JNull \<and> input \<noteq> JUndefined)"

fun is_array :: "jsval \<Rightarrow> bool" where
  "is_array (JArr xs) = True"
| "is_array v = False"

text \<open>\<^verbatim>\<open>typeof v === 'object'\<close>: true of \<^verbatim>\<open>null\<close>, of arrays and of objects.\<close>

fun typeof_object :: "jsval \<Rightarrow> bool" where
  "typeof_object JNull = True"
| "typeof_object (JArr xs) = True"
| "typeof_object (JObj kvs) = True"
| "typeof_object (JIntrinsic f) = (f = ObjectPrototype)"
| "typeof_object v = False"

text \<open>
  \<^verbatim>\<open>v[key]\<close> with a computed key: the key is converted to a string; \<^verbatim>\<open>null\<close> and
  \<^verbatim>\<open>undefined\<close> have no properties to read.
\<close>

definition get_prop_key :: "host \<Rightarrow> jsval \<Rightarrow> jsval \<Rightarrow> js_error + jsval" where
  "get_prop_key h v key =
     (if nullish v then Inl (TypeError ''Cannot read properties of null or undefined'')
      else bind_err (js_to_string h key) (\<lambda>k. get_prop h v k))"

text \<open>
  \<^verbatim>\<open>obj[k] = v\<close> on the plain object a node builds. \<^verbatim>\<open>__proto__\<close> is the accessor of
  \<^verbatim>\<open>Object.prototype\<close>: writing it stores no property.
\<close>

definition obj_set :: "(string \<times> jsval) list \<Rightarrow> string \<Rightarrow> jsval \<Rightarrow> (string \<times> jsval) list" where
  "obj_set kvs k v = (if k = ''__proto__'' then kvs else map_set kvs k v)"

subsection \<open>The operators of a filter condition\<close>

text \<open>Strings compare by code unit, the shorter of two that agree first.\<close>

fun str_less :: "string \<Rightarrow> string \<Rightarrow> bool" where
  "str_less [] [] = False"
| "str_less [] (y # ys) = True"
| "str_less (x # xs) [] = False"
| "str_less (x # xs) (y # ys) =
     (if (of_char x :: nat) < of_char y then True
      else if x = y then str_less xs ys
      else False)"

text \<open>
  \<^verbatim>\<open>ToNumber\<close> on the primitives that need no parsing; \<open>None\<close> is \<^verbatim>\<open>NaN\<close>, with
  which every comparison is false.
\<close>

fun numeric_prim :: "jsval \<Rightarrow> bool" where
  "numeric_prim JUndefined = True"
| "numeric_prim JNull = True"
| "numeric_prim (JBool b) = True"
| "numeric_prim (JNum n) = True"
| "numeric_prim v = False"

fun to_number :: "jsval \<Rightarrow> int option" where
  "to_number JNull = Some 0"
| "to_number (JBool b) = Some (if b then 1 else 0)"
| "to_number (JNum n) = Some n"
| "to_number v = None"

definition number_less :: "int option \<Rightarrow> int option \<Rightarrow> bool" where
  "number_less a b = (case a of None \<Rightarrow> False | Some x \<Rightarrow> (case b of None \<Rightarrow> False | Some y \<Rightarrow> x < y))"

text \<open>
  \<^verbatim>\<open>a < b\<close> and \<^verbatim>\<open>a > b\<close>: two strings, or two of the primitives above, compare here;
  a string against a number, and anything with an array, an object or a built-in, is
  coerced by the host.
\<close>

definition js_less :: "host \<Rightarrow> jsval \<Rightarrow> jsval \<Rightarrow> js_error + bool" where
  "js_less h a b =
     (case (a, b) of
        (JStr x, JStr y) \<Rightarrow> Inr (str_less x y)
      | _ \<Rightarrow> if numeric_prim a \<and> numeric_prim b
             then Inr (number_less (to_number a) (to_number b))
             else coerce_less h a b)"

definition js_greater :: "host \<Rightarrow> jsval \<Rightarrow> jsval \<Rightarrow> js_error + bool" where
  "js_greater h a b =
     (case (a, b) of
        (JStr x, JStr y) \<Rightarrow> Inr (str_less y x)
      | _ \<Rightarrow> if numeric_prim a \<and> numeric_prim b
             then Inr (number_less (to_number b) (to_number a))
             else coerce_greater h a b)"

text \<open>\<^verbatim>\<open>s.includes(t)\<close>: \<open>t\<close> stands somewhere in \<open>s\<close>.\<close>

fun str_includes :: "string \<Rightarrow> string \<Rightarrow> bool" where
  "str_includes [] t = (t = [])"
| "str_includes (c # s) t = (prefix t (c # s) \<or> str_includes s t)"

section \<open>DataFilterNode\<close>

text \<open>
  The callback of \<^verbatim>\<open>input.conditions.every\<close>: one condition on one item.
\<close>

definition eval_condition :: "host \<Rightarrow> jsval \<Rightarrow> jsval \<Rightarrow> js_error + bool" where
  "eval_condition h item condition =
     bind_err (get_prop h condition ''field'') (\<lambda>field.
     bind_err (get_prop_key h item field) (\<lambda>fieldValue.
     bind_err (get_prop h condition ''operator'') (\<lambda>operator.
       if operator = JStr ''equals'' then
         bind_err (get_prop h condition ''value'') (\<lambda>v. Inr (strict_eq h fieldValue v))
       else if operator = JStr ''not_equals'' then
         bind_err (get_prop h condition ''value'') (\<lambda>v. Inr (\<not> strict_eq h fieldValue v))
       else if operator = JStr ''greater_than'' then
         bind_err (get_prop h condition ''value'') (\<lambda>v. js_greater h fieldValue v)
       else if operator = JStr ''less_than'' then
         bind_err (get_prop h condition ''value'') (\<lambda>v. js_less h fieldValue v)
       else if operator = JStr ''contains'' then
         bind_err (js_to_string h fieldValue) (\<lambda>s.
         bind_err (get_prop h condition ''value'') (\<lambda>v.
         bind_err (js_to_string h v) (\<lambda>t. Inr (str_includes s t))))
       else Inr False)))"

text \<open>\<^verbatim>\<open>Array.prototype.every\<close> with that callback: it stops at the first false.\<close>

fun every_condition :: "host \<Rightarrow> jsval \<Rightarrow> jsval list \<Rightarrow> js_error + bool" where
  "every_condition h item [] = Inr True"
| "every_condition h item (condition # rest) =
     bind_err (eval_condition h item condition) (\<lambda>holds.
       if holds then every_condition h item rest else Inr False)"

text \<open>
  The callback of \<^verbatim>\<open>input.data.filter\<close>: it reads \<^verbatim>\<open>input.conditions\<close> and calls
  \<^verbatim>\<open>every\<close> on it, which only an array has.
\<close>

definition item_passes :: "host \<Rightarrow> jsval \<Rightarrow> jsval \<Rightarrow> js_error + bool" where
  "item_passes h input item =
     bind_err (get_prop h input ''conditions'') (\<lambda>conditions.
       case conditions of
         JArr cs \<Rightarrow> every_condition h item cs
       | _ \<Rightarrow> Inl (TypeError ''input.conditions.every is not a function''))"

fun filter_items :: "host \<Rightarrow> jsval \<Rightarrow> jsval list \<Rightarrow> js_error + jsval list" where
  "filter_items h input [] = Inr []"
| "filter_items h input (item # rest) =
     bind_err (item_passes h input item) (\<lambda>keep.
     bind_err (filter_items h input rest) (\<lambda>kept.
       Inr (if keep then item # kept else kept)))"

text \<open>
  The \<^verbatim>\<open>try\<close> block of \<^verbatim>\<open>DataFilterNode.execute\<close> up to \<^verbatim>\<open>filtered\<close>. Calling
  \<^verbatim>\<open>filter\<close> on what is not an array throws: the values of the input are data, none
  of them callable.
\<close>

definition DataFilterNode_filtered :: "host \<Rightarrow> jsval \<Rightarrow> js_error + jsval list" where
  "DataFilterNode_filtered h input =
     bind_err (get_prop h input ''data'') (\<lambda>d.
       case d of
         JArr items \<Rightarrow> filter_items h input items
       | _ \<Rightarrow> Inl (TypeError ''input.data.filter is not a function''))"

definition DataFilterNode_execute :: "host \<Rightarrow> int \<Rightarrow> int \<Rightarrow> jsval \<Rightarrow> js_error + envelope" where
  "DataFilterNode_execute h startTime endTime input =
     (case DataFilterNode_filtered h input of
        Inr filtered \<Rightarrow>
          Inr \<lparr>success = True,
               data = Some (JObj [(''filtered'', JArr filtered),
                                  (''filtered_count'', JNum (int (length filtered)))]),
               error = None,
               metrics = Some \<lparr>executionTime = endTime - startTime,
                                recordsProcessed = JNum (int (length filtered))\<rparr>\<rparr>
      | Inl e \<Rightarrow>
          Inr \<lparr>success = False, data = None,
               error = Some (catch_message ''Unknown error'' e), metrics = None\<rparr>)"

section \<open>FieldMapperNode\<close>

text \<open>
  The callback of \<^verbatim>\<open>input.mapping.forEach\<close>: one mapping applied to one item, the
  \<^verbatim>\<open>result\<close> object going in and out. In the \<^verbatim>\<open>function\<close> case the inner
  \<^verbatim>\<open>try\<close> falls back to the source value when compiling or calling the body throws.
\<close>

definition assign_target :: "host \<Rightarrow> jsval \<Rightarrow> (string \<times> jsval) list \<Rightarrow> jsval \<Rightarrow> js_error + (string \<times> jsval) list" where
  "assign_target h mapping result v =
     bind_err (get_prop h mapping ''targetField'') (\<lambda>targetField.
     bind_err (js_to_string h targetField) (\<lambda>k. Inr (obj_set result k v)))"

definition apply_mapping :: "host \<Rightarrow> jsval \<Rightarrow> (string \<times> jsval) list \<Rightarrow> jsval \<Rightarrow> js_error + (string \<times> jsval) list" where
  "apply_mapping h item result mapping =
     bind_err (get_prop h mapping ''sourceField'') (\<lambda>sourceField.
     bind_err (get_prop_key h item sourceField) (\<lambda>sourceValue.
     bind_err (get_prop h mapping ''transformation'') (\<lambda>transformation.
       if transformation = JStr ''rename'' then assign_target h mapping result sourceValue
       else if transformation = JStr ''function'' then
         bind_err (get_prop h mapping ''parameters'') (\<lambda>parameters.
         bind_err (get_optional h parameters ''functionBody'') (\<lambda>functionBody.
           if truthy functionBody then
             (case bind_err (run_function h functionBody sourceValue)
                     (\<lambda>returned. assign_target h mapping result returned) of
                Inr result' \<Rightarrow> Inr result'
              | Inl e \<Rightarrow> assign_target h mapping result sourceValue)
           else assign_target h mapping result sourceValue))
       else if transformation = JStr ''constant'' then
         bind_err (get_prop h mapping ''parameters'') (\<lambda>parameters.
         bind_err (get_optional h parameters ''constantValue'') (\<lambda>constantValue.
           assign_target h mapping result constantValue))
       else Inr result)))"

fun for_each_mapping :: "host \<Rightarrow> jsval \<Rightarrow> (string \<times> jsval) list \<Rightarrow> jsval list \<Rightarrow> js_error + (string \<times> jsval) list" where
  "for_each_mapping h item result [] = Inr result"
| "for_each_mapping h item result (mapping # rest) =
     bind_err (apply_mapping h item result mapping) (\<lambda>result'.
       for_each_mapping h item result' rest)"

text \<open>
  The callback of \<^verbatim>\<open>sourceData.map\<close>: \<^verbatim>\<open>forEach\<close> is called on \<^verbatim>\<open>input.mapping\<close>,
  which only an array has.
\<close>

definition map_item :: "host \<Rightarrow> jsval \<Rightarrow> jsval \<Rightarrow> js_error + jsval" where
  "map_item h input item =
     bind_err (get_prop h input ''mapping'') (\<lambda>mapping.
       case mapping of
         JArr ms \<Rightarrow> bind_err (for_each_mapping h item [] ms) (\<lambda>result. Inr (JObj result))
       | _ \<Rightarrow> Inl (TypeError ''input.mapping.forEach is not a function''))"

fun map_items :: "host \<Rightarrow> jsval \<Rightarrow> jsval list \<Rightarrow> js_error + jsval list" where
  "map_items h input [] = Inr []"
| "map_items h input (item # rest) =
     bind_err (map_item h input item) (\<lambda>r.
     bind_err (map_items h input rest) (\<lambda>rs. Inr (r # rs)))"

definition FieldMapperNode_execute :: "host \<Rightarrow> int \<Rightarrow> int \<Rightarrow> jsval \<Rightarrow> js_error + envelope" where
  "FieldMapperNode_execute h startTime endTime input =
     (case bind_err (get_prop h input ''source'') (\<lambda>source.
             let isArray = is_array source;
                 sourceData = (case source of JArr xs \<Rightarrow> xs | _ \<Rightarrow> [source])
             in bind_err (map_items h input sourceData) (\<lambda>mapped.
                  Inr (if isArray then JArr mapped
                       else (case mapped of m # ms \<Rightarrow> m | [] \<Rightarrow> JUndefined),
                       int (length sourceData)))) of
        Inr (mapped, n) \<Rightarrow>
          Inr \<lparr>success = True,
               data = Some (JObj [(''mapped'', mapped)]),
               error = None,
               metrics = Some \<lparr>executionTime = endTime - startTime, recordsProcessed = JNum n\<rparr>\<rparr>
      | Inl e \<Rightarrow>
          Inr \<lparr>success = False, data = None,
               error = Some (catch_message ''Unknown error'' e), metrics = None\<rparr>)"

text \<open>
  \<^verbatim>\<open>super.validate(input) && (Array.isArray(input.source) || typeof input.source === 'object')
  && Array.isArray(input.mapping)\<close>.
\<close>

definition FieldMapperNode_validate :: "host \<Rightarrow> jsval \<Rightarrow> js_error + bool" where
  "FieldMapperNode_validate h input =
     (if \<not> BaseNode_validate input then Inr False
      else bind_err (get_prop h input ''source'') (\<lambda>source.
             if is_array source \<or> typeof_object source
             then bind_err (get_prop h input ''mapping'') (\<lambda>mapping. Inr (is_array mapping))
             else Inr False))"

section \<open>MongoDBOperationsNode\<close>

text \<open>\<^verbatim>\<open>getRecordsProcessed(result, operation)\<close>.\<close>

definition getRecordsProcessed :: "host \<Rightarrow> jsval \<Rightarrow> jsval \<Rightarrow> js_error + jsval" where
  "getRecordsProcessed h result operation =
     (let or_zero = (\<lambda>v. if truthy v then v else JNum 0) in
      if operation = JStr ''find'' \<or> operation = JStr ''aggregate'' then
        bind_err (get_prop h result ''result'') (\<lambda>r.
          Inr (case r of JArr xs \<Rightarrow> JNum (int (length xs)) | _ \<Rightarrow> JNum 0))
      else if operation = JStr ''findOne'' then
        bind_err (get_prop h result ''result'') (\<lambda>r. Inr (JNum (if truthy r then 1 else 0)))
      else if operation = JStr ''insertOne'' \<or> operation = JStr ''insertMany'' then
        bind_err (get_prop h result ''insertedCount'') (\<lambda>c. Inr (or_zero c))
      else if operation = JStr ''updateOne'' \<or> operation = JStr ''updateMany'' then
        bind_err (get_prop h result ''modifiedCount'') (\<lambda>c. Inr (or_zero c))
      else if operation = JStr ''deleteOne'' \<or> operation = JStr ''deleteMany'' then
        bind_err (get_prop h result ''deletedCount'') (\<lambda>c. Inr (or_zero c))
      else Inr (JNum 0))"

text \<open>\<^verbatim>\<open>{ ...result }\<close>: the own properties of an object; of an array, its elements by index.\<close>

fun own_properties :: "jsval \<Rightarrow> (string \<times> jsval) list" where
  "own_properties (JObj kvs) = kvs"
| "own_properties (JArr xs) = zip (map nat_digits [0 ..< length xs]) xs"
| "own_properties v = []"

text \<open>
  \<^verbatim>\<open>a || b || fallback\<close> where \<open>a\<close> is \<^verbatim>\<open>input.options?.<name>\<close> and \<open>b\<close> is
  \<^verbatim>\<open>this.config.<name>\<close>.
\<close>

definition option_or_default :: "host \<Rightarrow> jsval \<Rightarrow> jsval \<Rightarrow> string \<Rightarrow> string \<Rightarrow> int \<Rightarrow> js_error + jsval" where
  "option_or_default h input config name config_name fallback =
     bind_err (get_prop h input ''options'') (\<lambda>options.
     bind_err (get_optional h options name) (\<lambda>a.
       if truthy a then Inr a
       else bind_err (get_prop h config config_name) (\<lambda>b.
              Inr (if truthy b then b else JNum fallback))))"

text \<open>
  \<^verbatim>\<open>MongoDBOperationsNode.execute\<close>. The driver and the timer are not the
  repository's: \<open>operate input timeout retries\<close> is what the awaited part of the
  \<^verbatim>\<open>try\<close> block gives (connecting with retries, then the operation raced against the
  timeout), the operation's result or what was thrown. The two lines that compute
  \<^verbatim>\<open>timeout\<close> and \<^verbatim>\<open>retries\<close> stand before the \<^verbatim>\<open>try\<close>. The \<^verbatim>\<open>finally\<close> block calls
  \<^verbatim>\<open>disconnect\<close>, which catches what closing throws and changes no result.
\<close>

definition MongoDBOperationsNode_execute ::
  "host \<Rightarrow> jsval \<Rightarrow> (jsval \<Rightarrow> jsval \<Rightarrow> jsval \<Rightarrow> js_error + jsval) \<Rightarrow> int \<Rightarrow> int \<Rightarrow> jsval
     \<Rightarrow> js_error + envelope" where
  "MongoDBOperationsNode_execute h config operate startTime endTime input =
     bind_err (option_or_default h input config ''timeout'' ''defaultTimeout'' 30000) (\<lambda>timeout.
     bind_err (option_or_default h input config ''retries'' ''defaultRetries'' 3) (\<lambda>retries.
       case bind_err (operate input timeout retries) (\<lambda>result.
              bind_err (get_prop h input ''operation'') (\<lambda>operation.
              bind_err (getRecordsProcessed h result operation) (\<lambda>n.
                Inr (obj_set (own_properties result) ''operationType'' operation, n)))) of
         Inr (d, n) \<Rightarrow>
           Inr \<lparr>success = True, data = Some (JObj d), error = None,
                metrics = Some \<lparr>executionTime = endTime - startTime, recordsProcessed = n\<rparr>\<rparr>
       | Inl e \<Rightarrow>
           Inr \<lparr>success = False, data = None,
                error = Some (catch_message ''Unknown MongoDB error'' e), metrics = None\<rparr>))"

section \<open>PostgreSQLQueryNode\<close>

text \<open>
  The \<^verbatim>\<open>pg\<close> client is not the repository's: \<open>pg_connect connectionString timeout\<close>
  is what building the \<^verbatim>\<open>Client\<close> and awaiting \<^verbatim>\<open>client.connect()\<close> give, and
  \<open>pg_query query parameters\<close> what awaiting \<^verbatim>\<open>client.query\<close> gives: the query
  result, or what was thrown.
\<close>

record pg_client =
  pg_connect :: "jsval \<Rightarrow> jsval \<Rightarrow> js_error + unit"
  pg_query :: "jsval \<Rightarrow> jsval \<Rightarrow> js_error + jsval"

text \<open>
  \<^verbatim>\<open>PostgreSQLQueryNode.execute\<close>: everything after \<^verbatim>\<open>startTime\<close> stands inside the
  \<^verbatim>\<open>try\<close>; the \<^verbatim>\<open>finally\<close> block closes the client inside a \<^verbatim>\<open>try\<close> of its own.
\<close>

definition PostgreSQLQueryNode_execute ::
  "host \<Rightarrow> jsval \<Rightarrow> pg_client \<Rightarrow> int \<Rightarrow> int \<Rightarrow> jsval \<Rightarrow> js_error + envelope" where
  "PostgreSQLQueryNode_execute h config client startTime endTime input =
     (case bind_err (get_prop h input ''connectionString'') (\<lambda>connectionString.
           bind_err (get_optional h config ''timeout'') (\<lambda>t.
           bind_err (pg_connect client connectionString (if truthy t then t else JNum 30000)) (\<lambda>u.
           bind_err (get_prop h input ''query'') (\<lambda>query.
           bind_err (get_prop h input ''parameters'') (\<lambda>p.
           bind_err (pg_query client query (if truthy p then p else JArr [])) (\<lambda>queryResult.
           bind_err (get_prop h queryResult ''rows'') (\<lambda>rows.
           bind_err (get_prop h queryResult ''rowCount'') (\<lambda>rowCount.
             Inr (rows, if truthy rowCount then rowCount else JNum 0))))))))) of
        Inr (rows, n) \<Rightarrow>
          Inr \<lparr>success = True,
               data = Some (JObj [(''result'', rows), (''rowCount'', n)]),
               error = None,
               metrics = Some \<lparr>executionTime = endTime - startTime, recordsProcessed = n\<rparr>\<rparr>
      | Inl e \<Rightarrow>
          Inr \<lparr>success = False, data = None,
               error = Some (catch_message ''Unknown PostgreSQL error'' e),
               metrics = Some \<lparr>executionTime = endTime - startTime, recordsProcessed = JNum 0\<rparr>\<rparr>)"

section \<open>The classes of the library as the registry sees them\<close>

text \<open>
  \<^verbatim>\<open>BaseNode\<close>: the constructor keeps its first argument as the configuration; the
  static \<^verbatim>\<open>getMetadata\<close> of the base class throws.
\<close>

definition BaseNode_constructor :: "jsval list \<Rightarrow> jsval" where
  "BaseNode_constructor args = (case args of [] \<Rightarrow> JUndefined | config # others \<Rightarrow> config)"

definition BaseNode_getMetadata :: "js_error + node_metadata" where
  "BaseNode_getMetadata =
     Inl (JsError ''Static getMetadata() method must be implemented by node classes'')"

text \<open>\<^verbatim>\<open>DataFilterNode.getMetadata()\<close>.\<close>

definition DataFilterNode_getMetadata :: node_metadata where
  "DataFilterNode_getMetadata =
     \<lparr>md_type = ''data-filter'',
      md_name = ''Data Filter'',
      md_description =
        ''Filters array data based on configurable conditions with support for multiple operators'',
      md_version = ''1.0.0'',
      md_category = ''transformation'',
      md_inputs =
        [JObj [(''name'', JStr ''data''), (''type'', JStr ''array''), (''required'', JBool True),
               (''description'', JStr ''Array of objects to filter'')],
         JObj [(''name'', JStr ''conditions''), (''type'', JStr ''array''), (''required'', JBool True),
               (''description'', JStr ''Array of filter conditions to apply''),
               (''defaultValue'',
                  JArr [JObj [(''field'', JStr ''status''), (''operator'', JStr ''equals''),
                              (''value'', JStr ''active'')]])]],
      md_outputs =
        [JObj [(''name'', JStr ''filtered''), (''type'', JStr ''array''),
               (''description'', JStr ''Filtered array of objects that match all conditions''),
               (''schema'', JObj [(''type'', JStr ''array''),
                                  (''items'', JObj [(''type'', JStr ''object'')])])],
         JObj [(''name'', JStr ''filtered_count''), (''type'', JStr ''number''),
               (''description'', JStr ''Number of items that passed the filter conditions'')]],
      md_optional =
        [(''icon'', JStr ''filter''),
         (''compatibilityMatrix'',
            JArr [JObj [(''targetType'', JStr ''field-mapper''), (''outputPin'', JStr ''filtered''),
                        (''targetInputPin'', JStr ''source''), (''compatibility'', JStr ''full'')],
                  JObj [(''targetType'', JStr ''mongodb-operations''), (''outputPin'', JStr ''filtered''),
                        (''targetInputPin'', JStr ''data''), (''compatibility'', JStr ''full'')]]),
         (''configuration'',
            JObj [(''timeout'', JNum 10000), (''retries'', JNum 2), (''concurrency'', JNum 1),
                  (''batchSize'', JNum 5000)]),
         (''tags'', JArr [JStr ''transformation'', JStr ''filter'', JStr ''data-processing'']),
         (''relatedNodes'',
            JArr [JStr ''field-mapper'', JStr ''postgresql-query'', JStr ''mongodb-operations''])]\<rparr>"

definition DataFilterNode_class :: node_class where
  "DataFilterNode_class =
     \<lparr>construct = (\<lambda>args. Inr \<lparr>inst_type = ''data-filter'', inst_version = ''1.0.0'',
                                inst_category = ''transformation'', inst_class = ''DataFilterNode'',
                                inst_config = BaseNode_constructor args\<rparr>),
      static_getMetadata = Some (Inr DataFilterNode_getMetadata)\<rparr>"

text \<open>
  The class that \<^verbatim>\<open>cli.js\<close> writes for a new node (\<^verbatim>\<open>generateNodeTemplate\<close>): it
  extends \<^verbatim>\<open>BaseNode\<close>, sets \<^verbatim>\<open>type\<close>, \<^verbatim>\<open>version = '1.0.0'\<close> and \<^verbatim>\<open>category\<close>, and
  declares no static \<^verbatim>\<open>getMetadata\<close>. A static method is inherited, so
  \<^verbatim>\<open>typeof NodeClass.getMetadata\<close> is \<^verbatim>\<open>'function'\<close> for it: the one of \<^verbatim>\<open>BaseNode\<close>.
\<close>

definition scaffold_class :: "string \<Rightarrow> string \<Rightarrow> string \<Rightarrow> node_class" where
  "scaffold_class nodeName className category =
     \<lparr>construct = (\<lambda>args. Inr \<lparr>inst_type = nodeName, inst_version = ''1.0.0'',
                                inst_category = category, inst_class = className,
                                inst_config = BaseNode_constructor args\<rparr>),
      static_getMetadata = Some BaseNode_getMetadata\<rparr>"

section \<open>Vocabulary of the properties\<close>

text \<open>The keys every plain object answers to without having them.\<close>

definition inherited_keys :: "string list" where
  "inherited_keys = ''constructor'' # ''__proto__'' # object_prototype_methods"

text \<open>
  The values whose \<^verbatim>\<open>String(v)\<close> is fixed by the language alone.
\<close>

fun printable :: "jsval \<Rightarrow> bool" where
  "printable (JNum n) = safe_integer n"
| "printable (JArr xs) = False"
| "printable (JObj kvs) = False"
| "printable (JIntrinsic f) = False"
| "printable v = True"

text \<open>
  A host for the closed examples below. None of them reaches it: they read plain
  objects and compare numbers and strings.
\<close>

definition quiet_host :: host where
  "quiet_host =
     \<lparr>prim_get = (\<lambda>v k. JUndefined),
      same_ref = (\<lambda>a b. False),
      coerce_less = (\<lambda>a b. Inr False),
      coerce_greater = (\<lambda>a b. Inr False),
      coerce_string = (\<lambda>v. Inr ''[object Object]''),
      run_function = (\<lambda>body v. Inr JUndefined)\<rparr>"

text \<open>
  The class most recently registered for a type in a run of \<^verbatim>\<open>register\<close> calls.
\<close>

fun last_registered :: "(node_class \<times> string) list \<Rightarrow> string \<Rightarrow> node_class option" where
  "last_registered [] t = None"
| "last_registered ((nodeClass, t') # calls) t =
     (case last_registered calls t of
        Some later \<Rightarrow> Some later
      | None \<Rightarrow> if t' = t then Some nodeClass else None)"

text \<open>
  The operator semantics of a filter condition, in the claim's words and apart from the
  node's code: \<^verbatim>\<open>equals\<close> is strict equality of the field's value and the
  condition's value, \<^verbatim>\<open>not_equals\<close> its negation, \<^verbatim>\<open>greater_than\<close> and \<^verbatim>\<open>less_than\<close>
  the comparisons \<^verbatim>\<open>>\<close> and \<^verbatim>\<open><\<close>, \<^verbatim>\<open>contains\<close> that the text of the condition's
  value stands somewhere in the text of the field's value; no other operator holds.
\<close>

definition operator_holds :: "host \<Rightarrow> jsval \<Rightarrow> jsval \<Rightarrow> jsval \<Rightarrow> bool" where
  "operator_holds h operator fieldValue v =
     (if operator = JStr ''equals'' then strict_eq h fieldValue v
      else if operator = JStr ''not_equals'' then \<not> strict_eq h fieldValue v
      else if operator = JStr ''greater_than'' then js_greater h fieldValue v = Inr True
      else if operator = JStr ''less_than'' then js_less h fieldValue v = Inr True
      else if operator = JStr ''contains'' then
        (case js_to_string h fieldValue of
           Inl e \<Rightarrow> False
         | Inr s \<Rightarrow> (case js_to_string h v of Inl e \<Rightarrow> False | Inr t \<Rightarrow> sublist t s))
      else False)"

text \<open>
  An item satisfies a condition \<^verbatim>\<open>{field, operator, value}\<close>: the item's value under
  the field stands in the operator's relation to the condition's value.
\<close>

definition condition_holds :: "host \<Rightarrow> jsval \<Rightarrow> jsval \<Rightarrow> bool" where
  "condition_holds h item condition =
     (case get_prop h condition ''field'' of
        Inl e \<Rightarrow> False
      | Inr field \<Rightarrow>
          (case get_prop_key h item field of
             Inl e \<Rightarrow> False
           | Inr fieldValue \<Rightarrow>
               (case get_prop h condition ''operator'' of
                  Inl e \<Rightarrow> False
                | Inr operator \<Rightarrow>
                    (case get_prop h condition ''value'' of
                       Inl e \<Rightarrow> False
                     | Inr v \<Rightarrow> operator_holds h operator fieldValue v))))"

definition satisfies_every :: "host \<Rightarrow> jsval list \<Rightarrow> jsval \<Rightarrow> bool" where
  "satisfies_every h conditions item =
     (\<forall>condition \<in> set conditions. condition_holds h item condition)"

text \<open>The five operators.\<close>

definition operators :: "string list" where
  "operators = [''equals'', ''not_equals'', ''greater_than'', ''less_than'', ''contains'']"

section \<open>Properties\<close>

subsection \<open>CompatibilityValidator.check\<close>

lemmas check_unfold =
  check_def matrix_def bind_err_def get_optional_def obj_get_def object_prototype_get_def
  object_prototype_methods_def intrinsic_get_def function_prototype_get_def
  function_prototype_methods_def object_static_methods_def

lemma object_prototype_get_absent:
  "k \<notin> set inherited_keys \<Longrightarrow> object_prototype_get p k = JUndefined"
  by (simp add: object_prototype_get_def inherited_keys_def)

lemma strict_eq_string: "strict_eq h v (JStr s) = (v = JStr s)"
  by (cases v) auto

lemma check_valid_iff: "check h s t = Inr c \<Longrightarrow> valid c = (level c \<noteq> JStr ''none'')"
  by (auto simp: check_def bind_err_def Let_def strict_eq_string split: sum.splits)

text \<open>
  Where the table has no entry and neither key is one that \<^verbatim>\<open>Object.prototype\<close>
  answers, \<^verbatim>\<open>check\<close> gives \<^verbatim>\<open>{level:'none', valid:false}\<close>.
\<close>

lemma check_absent_none:
  assumes "declared s t = None" "s \<notin> set inherited_keys" "t \<notin> set inherited_keys"
  shows "check h s t = Inr \<lparr>level = JStr ''none'', valid = False\<rparr>"
proof (cases "map_of matrix s")
  case None
  then have "obj_get matrix s = JUndefined"
    using assms(2) by (simp add: obj_get_def object_prototype_get_absent)
  then show ?thesis
    by (simp add: check_def bind_err_def get_optional_def)
next
  case (Some row)
  then obtain kvs where row: "row = JObj kvs"
    by (auto simp: matrix_def split: if_splits)
  with Some assms(1) have "map_of kvs t = None"
    by (simp add: declared_def)
  then have "obj_get kvs t = JUndefined"
    using assms(3) by (simp add: obj_get_def object_prototype_get_absent)
  with Some row show ?thesis
    by (simp add: check_def bind_err_def get_optional_def obj_get_def)
qed

lemma check_unknown_types:
  "check h ''notification-node'' ''ai-ml-node'' = Inr \<lparr>level = JStr ''none'', valid = False\<rparr>"
  by (simp add: check_unfold)

text \<open>
  C1. The claim: for every pair of strings with no entry in the table, \<^verbatim>\<open>check\<close>
  returns \<^verbatim>\<open>{level:'none', valid:false}\<close>, never throws and never returns a level
  outside the enumeration. The code reads the table with \<^verbatim>\<open>matrix[sourceType]?.[targetType]\<close>,
  and a plain object answers to the keys of \<^verbatim>\<open>Object.prototype\<close> too. The pair
  \<^verbatim>\<open>('postgresql-query', 'toString')\<close> has no entry, and \<^verbatim>\<open>check\<close> returns the
  function \<^verbatim>\<open>Object.prototype.toString\<close> as the level, with \<^verbatim>\<open>valid: true\<close>. (The pair
  \<^verbatim>\<open>('constructor', 'caller')\<close> has no entry either, and there \<^verbatim>\<open>check\<close> throws:
  \<open>check_throws_on_restricted_accessor\<close>.)
\<close>

theorem check_inherited_key_escapes:
  "declared ''postgresql-query'' ''toString'' = None
   \<and> check h ''postgresql-query'' ''toString''
       = Inr \<lparr>level = JIntrinsic (ObjectProtoFn ''toString''), valid = True\<rparr>"
  by (simp add: check_unfold declared_def)

lemma check_throws_on_restricted_accessor:
  "declared ''constructor'' ''caller'' = None \<and> (\<exists>e. check h ''constructor'' ''caller'' = Inl e)"
  by (simp add: check_unfold declared_def)

text \<open>The four built-in types against themselves: only \<^verbatim>\<open>mongodb-operations\<close> has an entry.\<close>

lemma check_self_builtin:
  "check h ''mongodb-operations'' ''mongodb-operations'' = Inr \<lparr>level = JStr ''full'', valid = True\<rparr>"
  "check h ''postgresql-query'' ''postgresql-query'' = Inr \<lparr>level = JStr ''none'', valid = False\<rparr>"
  "check h ''data-filter'' ''data-filter'' = Inr \<lparr>level = JStr ''none'', valid = False\<rparr>"
  "check h ''field-mapper'' ''field-mapper'' = Inr \<lparr>level = JStr ''none'', valid = False\<rparr>"
  by (simp_all add: check_unfold)

text \<open>
  C9. The claim: for every node type \<open>T\<close> with no declared \<open>(T, T)\<close> entry,
  \<^verbatim>\<open>check(T, T)\<close> is \<^verbatim>\<open>{level:'none', valid:false}\<close>. A node type is any string
  (the registry takes any), and for \<^verbatim>\<open>T = 'toString'\<close> the table has no entry,
  yet \<^verbatim>\<open>matrix['toString']\<close> is the function \<^verbatim>\<open>Object.prototype.toString\<close> and its
  property \<^verbatim>\<open>toString\<close> is \<^verbatim>\<open>Function.prototype.toString\<close>: \<^verbatim>\<open>check\<close> answers
  \<^verbatim>\<open>valid: true\<close>. (For the four built-in types the claim's values hold:
  \<open>check_self_builtin\<close>.)
\<close>

theorem check_self_inherited_key_valid:
  "declared ''toString'' ''toString'' = None
   \<and> check h ''toString'' ''toString''
       = Inr \<lparr>level = JIntrinsic (FunctionProtoFn ''toString''), valid = True\<rparr>"
  by (simp add: check_unfold declared_def)

subsection \<open>CompatibilityValidator.validateCompatibility\<close>

lemma truthy_get_type: "truthy v \<Longrightarrow> \<exists>x. get_prop h v ''type'' = Inr x"
  by (cases v)
     (auto simp: intrinsic_get_def function_prototype_get_def object_static_methods_def
        function_prototype_methods_def)

lemma schema_issues_returns:
  assumes "\<forall>v. get_prop h ss ''type'' = Inr v \<longrightarrow> (\<exists>s. js_to_string h v = Inr s)"
      and "\<forall>v. get_prop h ts ''type'' = Inr v \<longrightarrow> (\<exists>s. js_to_string h v = Inr s)"
  shows "\<exists>ws. schema_issues h ss ts = Inr ws \<and> (\<forall>i \<in> set ws. severity i = SevWarning)"
proof (cases "truthy ss \<and> truthy ts")
  case False
  then show ?thesis by (auto simp: schema_issues_def)
next
  case True
  then obtain st tt
    where st: "get_prop h ss ''type'' = Inr st" and tt: "get_prop h ts ''type'' = Inr tt"
    using truthy_get_type by blast
  from assms st tt obtain a b where "js_to_string h st = Inr a" "js_to_string h tt = Inr b"
    by blast
  with True st tt show ?thesis
    by (simp add: schema_issues_def bind_err_def)
qed

lemma schema_issues_mismatch:
  assumes "map_of ss ''type'' = Some (JStr a)" "map_of ts ''type'' = Some (JStr b)"
      and "a \<noteq> b" "a \<noteq> ''any''" "b \<noteq> ''any''"
  shows "\<exists>m. schema_issues h (JObj ss) (JObj ts) = Inr [\<lparr>severity = SevWarning, message = m\<rparr>]"
  using assms by (simp add: schema_issues_def bind_err_def obj_get_def)

lemma schema_issues_shape:
  "schema_issues h ss ts = Inr ws \<Longrightarrow> ws = [] \<or> (\<exists>m. ws = [\<lparr>severity = SevWarning, message = m\<rparr>])"
  by (auto simp: schema_issues_def bind_err_def split: if_splits sum.splits)

lemma validateCompatibility_result:
  assumes "validateCompatibility h source target = Inr r"
  shows "\<exists>c ws. check h (node_type source) (node_type target) = Inr c
           \<and> schema_issues h (schema source) (schema target) = Inr ws
           \<and> compatible r = valid c
           \<and> issues r = (if valid c then [] else
                 [\<lparr>severity = SevError,
                   message = ''No compatibility rule found between '' @ node_type source
                             @ '' and '' @ node_type target\<rparr>]) @ ws"
proof -
  from assms obtain c where c: "check h (node_type source) (node_type target) = Inr c"
    by (auto simp: validateCompatibility_def bind_err_def split: sum.splits)
  from assms c obtain ws where ws: "schema_issues h (schema source) (schema target) = Inr ws"
    by (auto simp: validateCompatibility_def bind_err_def Let_def split: sum.splits)
  from schema_issues_shape [OF ws] have noerr: "filter (\<lambda>i. severity i = SevError) ws = []"
    by auto
  from assms c ws noerr show ?thesis
    by (auto simp: validateCompatibility_def bind_err_def Let_def)
qed

text \<open>
  C2. For every source and target descriptor: whenever \<^verbatim>\<open>validateCompatibility\<close>
  returns \<open>r\<close>, \<^verbatim>\<open>check\<close> on the two types returned some \<open>c\<close>, and
  \<open>compatible r\<close> holds exactly when the level of \<open>c\<close> is not \<^verbatim>\<open>'none'\<close> and no
  issue has severity \<^verbatim>\<open>error\<close>; a level other than \<^verbatim>\<open>'none'\<close> gives compatible
  and the level \<^verbatim>\<open>'none'\<close> gives incompatible, whatever the schemas say; and at most
  one issue is a \<^verbatim>\<open>warning\<close>. It does return whenever \<^verbatim>\<open>check\<close> returns and the
  declared schema types convert to strings for the message. And when both schemas carry
  a \<^verbatim>\<open>type\<close> field, the two differ and neither is \<^verbatim>\<open>'any'\<close>, exactly one issue of
  severity \<^verbatim>\<open>warning\<close> is emitted, and \<open>compatible\<close> is as the level alone decides.
\<close>

theorem validateCompatibility_compatible:
  "(\<forall>r. validateCompatibility h source target = Inr r \<longrightarrow>
      (\<exists>c. check h (node_type source) (node_type target) = Inr c
         \<and> (compatible r \<longleftrightarrow> level c \<noteq> JStr ''none'' \<and> (\<forall>i \<in> set (issues r). severity i \<noteq> SevError))
         \<and> (level c \<noteq> JStr ''none'' \<longrightarrow> compatible r)
         \<and> (level c = JStr ''none'' \<longrightarrow> \<not> compatible r)
         \<and> length (filter (\<lambda>i. severity i = SevWarning) (issues r)) \<le> 1))
   \<and> (\<forall>c. check h (node_type source) (node_type target) = Inr c
          \<and> (\<forall>v. get_prop h (schema source) ''type'' = Inr v \<longrightarrow> (\<exists>s. js_to_string h v = Inr s))
          \<and> (\<forall>v. get_prop h (schema target) ''type'' = Inr v \<longrightarrow> (\<exists>s. js_to_string h v = Inr s))
        \<longrightarrow> (\<exists>r. validateCompatibility h source target = Inr r))
   \<and> (\<forall>c ss ts a b. check h (node_type source) (node_type target) = Inr c
          \<and> schema source = JObj ss \<and> schema target = JObj ts
          \<and> map_of ss ''type'' = Some (JStr a) \<and> map_of ts ''type'' = Some (JStr b)
          \<and> a \<noteq> b \<and> a \<noteq> ''any'' \<and> b \<noteq> ''any''
        \<longrightarrow> (\<exists>r. validateCompatibility h source target = Inr r
               \<and> length (filter (\<lambda>i. severity i = SevWarning) (issues r)) = 1
               \<and> (compatible r \<longleftrightarrow> level c \<noteq> JStr ''none'')))"
proof (intro conjI allI impI)
  fix r
  assume ret: "validateCompatibility h source target = Inr r"
  from validateCompatibility_result [OF ret] obtain c ws
    where c: "check h (node_type source) (node_type target) = Inr c"
      and ws: "schema_issues h (schema source) (schema target) = Inr ws"
      and comp: "compatible r = valid c"
      and iss: "issues r = (if valid c then [] else
                 [\<lparr>severity = SevError,
                   message = ''No compatibility rule found between '' @ node_type source
                             @ '' and '' @ node_type target\<rparr>]) @ ws"
    by blast
  have v: "valid c = (level c \<noteq> JStr ''none'')"
    using c by (rule check_valid_iff)
  from schema_issues_shape [OF ws] comp iss v
  have "(compatible r \<longleftrightarrow> level c \<noteq> JStr ''none'' \<and> (\<forall>i \<in> set (issues r). severity i \<noteq> SevError))
         \<and> (level c \<noteq> JStr ''none'' \<longrightarrow> compatible r)
         \<and> (level c = JStr ''none'' \<longrightarrow> \<not> compatible r)
         \<and> length (filter (\<lambda>i. severity i = SevWarning) (issues r)) \<le> 1"
    by auto
  with c show "\<exists>c. check h (node_type source) (node_type target) = Inr c
         \<and> (compatible r \<longleftrightarrow> level c \<noteq> JStr ''none'' \<and> (\<forall>i \<in> set (issues r). severity i \<noteq> SevError))
         \<and> (level c \<noteq> JStr ''none'' \<longrightarrow> compatible r)
         \<and> (level c = JStr ''none'' \<longrightarrow> \<not> compatible r)
         \<and> length (filter (\<lambda>i. severity i = SevWarning) (issues r)) \<le> 1"
    by blast
next
  fix c
  assume a: "check h (node_type source) (node_type target) = Inr c
          \<and> (\<forall>v. get_prop h (schema source) ''type'' = Inr v \<longrightarrow> (\<exists>s. js_to_string h v = Inr s))
          \<and> (\<forall>v. get_prop h (schema target) ''type'' = Inr v \<longrightarrow> (\<exists>s. js_to_string h v = Inr s))"
  then obtain ws where "schema_issues h (schema source) (schema target) = Inr ws"
    using schema_issues_returns by blast
  with a show "\<exists>r. validateCompatibility h source target = Inr r"
    by (simp add: validateCompatibility_def bind_err_def Let_def)
next
  fix c ss ts a b
  assume a: "check h (node_type source) (node_type target) = Inr c
          \<and> schema source = JObj ss \<and> schema target = JObj ts
          \<and> map_of ss ''type'' = Some (JStr a) \<and> map_of ts ''type'' = Some (JStr b)
          \<and> a \<noteq> b \<and> a \<noteq> ''any'' \<and> b \<noteq> ''any''"
  then obtain m
    where ws: "schema_issues h (schema source) (schema target) = Inr [\<lparr>severity = SevWarning, message = m\<rparr>]"
    using schema_issues_mismatch by fastforce
  have v: "valid c = (level c \<noteq> JStr ''none'')"
    using a check_valid_iff by blast
  from a ws v show "\<exists>r. validateCompatibility h source target = Inr r
               \<and> length (filter (\<lambda>i. severity i = SevWarning) (issues r)) = 1
               \<and> (compatible r \<longleftrightarrow> level c \<noteq> JStr ''none'')"
    by (simp add: validateCompatibility_def bind_err_def Let_def)
qed

text \<open>
  The spec's scenario: source schema type \<^verbatim>\<open>"array"\<close>, target schema type
  \<^verbatim>\<open>"object"\<close>, base level \<^verbatim>\<open>full\<close>: compatible, with one warning.
\<close>

theorem validateCompatibility_compatible_witness:
  "\<exists>r. validateCompatibility quiet_host
          \<lparr>node_type = ''postgresql-query'', pin = ''result'', schema = JObj [(''type'', JStr ''array'')]\<rparr>
          \<lparr>node_type = ''data-filter'', pin = ''data'', schema = JObj [(''type'', JStr ''object'')]\<rparr>
        = Inr r
     \<and> length (filter (\<lambda>i. severity i = SevWarning) (issues r)) = 1
     \<and> compatible r"
proof -
  let ?s = "\<lparr>node_type = ''postgresql-query'', pin = ''result'', schema = JObj [(''type'', JStr ''array'')]\<rparr>"
  let ?t = "\<lparr>node_type = ''data-filter'', pin = ''data'', schema = JObj [(''type'', JStr ''object'')]\<rparr>"
  have chk: "check quiet_host (node_type ?s) (node_type ?t) = Inr \<lparr>level = JStr ''full'', valid = True\<rparr>"
    by (simp add: check_unfold)
  from validateCompatibility_compatible [of quiet_host ?s ?t, THEN conjunct2, THEN conjunct2,
      rule_format, of "\<lparr>level = JStr ''full'', valid = True\<rparr>" "[(''type'', JStr ''array'')]"
      "[(''type'', JStr ''object'')]" "''array''" "''object''"] chk
  show ?thesis
    by simp
qed

subsection \<open>NodeRegistry\<close>

lemma map_of_map_set: "map_of (map_set nodes k v) = (map_of nodes)(k \<mapsto> v)"
  by (induction nodes) (auto simp: fun_eq_iff)

lemma keys_map_set:
  "map fst (map_set nodes k v) =
     (if k \<in> set (map fst nodes) then map fst nodes else map fst nodes @ [k])"
  by (induction nodes) force+

lemma distinct_map_set: "distinct (map fst nodes) \<Longrightarrow> distinct (map fst (map_set nodes k v))"
  by (simp add: keys_map_set)

lemma register_all_keys:
  "distinct (map fst nodes) \<Longrightarrow>
   distinct (map fst (register_all nodes calls))
   \<and> set (map fst (register_all nodes calls)) = set (map fst nodes) \<union> snd ` set calls"
proof (induction calls arbitrary: nodes)
  case Nil
  then show ?case by simp
next
  case (Cons call calls)
  obtain c t where call: "call = (c, t)" by (cases call)
  have d: "distinct (map fst (register nodes c t))"
    using Cons.prems by (simp add: register_def distinct_map_set)
  have "set (map fst (register nodes c t)) = insert t (set (map fst nodes))"
    by (auto simp: register_def keys_map_set)
  with Cons.IH [OF d] call show ?case by auto
qed

lemma register_all_lookup:
  "map_of (register_all nodes calls) t =
     (case last_registered calls t of Some c \<Rightarrow> Some c | None \<Rightarrow> map_of nodes t)"
proof (induction calls arbitrary: nodes)
  case Nil
  then show ?case by simp
next
  case (Cons call calls)
  obtain c t' where call: "call = (c, t')" by (cases call)
  show ?case
    by (simp add: call Cons.IH register_def map_of_map_set split: option.splits)
qed

lemma count_list_distinct: "distinct xs \<Longrightarrow> x \<in> set xs \<Longrightarrow> count_list xs x = 1"
  by (induction xs) (auto simp: count_list_0_iff)

text \<open>
  C4. For a type that is not registered, \<^verbatim>\<open>create\<close> throws the error
  \<^verbatim>\<open>Node type '<t>' not found\<close> and returns no instance; for a registered type it
  returns what \<^verbatim>\<open>new NodeClass(config)\<close> gives for the class stored under the type,
  built anew from the supplied configuration (the registry keeps no instance).
\<close>

theorem create_registered_or_not_found:
  "(t \<notin> set (getAvailableTypes nodes) \<longrightarrow>
      create nodes t config = Inl (JsError (''Node type '' @ [CHR 0x27] @ t @ [CHR 0x27] @ '' not found''))
      \<and> (\<forall>inst. create nodes t config \<noteq> Inr inst))
   \<and> (t \<in> set (getAvailableTypes nodes) \<longrightarrow>
      (\<exists>nodeClass. map_of nodes t = Some nodeClass
         \<and> create nodes t config = construct nodeClass [config]))"
proof (cases "map_of nodes t")
  case None
  then have "t \<notin> set (getAvailableTypes nodes)"
    by (simp add: getAvailableTypes_def map_of_eq_None_iff)
  with None show ?thesis by (simp add: create_def)
next
  case (Some nodeClass)
  then have "t \<in> set (getAvailableTypes nodes)"
    by (metis getAvailableTypes_def map_of_eq_None_iff option.distinct(1) set_map)
  with Some show ?thesis by (simp add: create_def)
qed

theorem create_registered_or_not_found_witness:
  "create (register [] DataFilterNode_class ''data-filter'') ''nonexistent-type'' (JObj [])
     = Inl (JsError (''Node type '' @ [CHR 0x27] @ ''nonexistent-type'' @ [CHR 0x27] @ '' not found''))
   \<and> ''nonexistent-type'' \<notin> set (getAvailableTypes (register [] DataFilterNode_class ''data-filter''))
   \<and> create (register [] DataFilterNode_class ''data-filter'') ''data-filter''
        (JObj [(''batchSize'', JNum 10)])
     = Inr \<lparr>inst_type = ''data-filter'', inst_version = ''1.0.0'', inst_category = ''transformation'',
            inst_class = ''DataFilterNode'', inst_config = JObj [(''batchSize'', JNum 10)]\<rparr>"
proof -
  let ?nodes = "register [] DataFilterNode_class ''data-filter''"
  have types: "getAvailableTypes ?nodes = [''data-filter'']"
    by (simp add: register_def getAvailableTypes_def)
  have absent: "''nonexistent-type'' \<notin> set (getAvailableTypes ?nodes)"
    by (simp add: types)
  have present: "''data-filter'' \<in> set (getAvailableTypes ?nodes)"
    by (simp add: types)
  have stored: "map_of ?nodes ''data-filter'' = Some DataFilterNode_class"
    by (simp add: register_def)
  from create_registered_or_not_found [of "''nonexistent-type''" ?nodes "JObj []"] absent
  have miss: "create ?nodes ''nonexistent-type'' (JObj [])
     = Inl (JsError (''Node type '' @ [CHR 0x27] @ ''nonexistent-type'' @ [CHR 0x27] @ '' not found''))"
    by blast
  from create_registered_or_not_found [of "''data-filter''" ?nodes "JObj [(''batchSize'', JNum 10)]"]
    present stored
  have hit: "create ?nodes ''data-filter'' (JObj [(''batchSize'', JNum 10)])
     = construct DataFilterNode_class [JObj [(''batchSize'', JNum 10)]]"
    by auto
  from miss absent hit show ?thesis
    by (simp add: DataFilterNode_class_def BaseNode_constructor_def)
qed

text \<open>
  The paths of \<^verbatim>\<open>getNodeMetadata\<close>, by what \<^verbatim>\<open>typeof NodeClass.getMetadata\<close> and the
  two calls give. Its only outcomes are a descriptor and \<^verbatim>\<open>null\<close> (\<open>None\<close>).
\<close>

lemma getNodeMetadata_paths:
  "(map_of nodes t = None \<longrightarrow> getNodeMetadata nodes t = None)
   \<and> (\<forall>nodeClass md. map_of nodes t = Some nodeClass \<and> static_getMetadata nodeClass = Some (Inr md)
        \<longrightarrow> getNodeMetadata nodes t = Some md)
   \<and> (\<forall>nodeClass e. map_of nodes t = Some nodeClass \<and> static_getMetadata nodeClass = Some (Inl e)
        \<longrightarrow> getNodeMetadata nodes t = None)
   \<and> (\<forall>nodeClass inst. map_of nodes t = Some nodeClass \<and> static_getMetadata nodeClass = None
          \<and> construct nodeClass [] = Inr inst
        \<longrightarrow> (\<exists>md. getNodeMetadata nodes t = Some md
               \<and> md_inputs md = [] \<and> md_outputs md = [] \<and> md_optional md = []
               \<and> md_type md = (if inst_type inst = [] then t else inst_type inst)
               \<and> md_name md = strip_node_suffix (inst_class inst)
               \<and> md_description md = ''Auto-generated metadata for '' @ t
               \<and> md_version md = (if inst_version inst = [] then ''1.0.0'' else inst_version inst)
               \<and> md_category md
                   = (if inst_category inst = [] then ''transformation'' else inst_category inst)))
   \<and> (\<forall>nodeClass e. map_of nodes t = Some nodeClass \<and> static_getMetadata nodeClass = None
          \<and> construct nodeClass [] = Inl e
        \<longrightarrow> getNodeMetadata nodes t = None)"
  by (auto simp: getNodeMetadata_def)

lemma getNodeMetadata_builtin:
  "getNodeMetadata (register [] DataFilterNode_class ''data-filter'') ''data-filter''
     = Some DataFilterNode_getMetadata"
  "getNodeMetadata (register [] DataFilterNode_class ''data-filter'') ''missing'' = None"
  by (simp_all add: getNodeMetadata_def register_def DataFilterNode_class_def)

text \<open>
  C5. The claim: when the registered class does not implement the static accessor,
  \<^verbatim>\<open>getNodeMetadata\<close> falls back to an instance constructed with no arguments and
  returns a synthesized descriptor with empty \<^verbatim>\<open>inputs\<close> and \<^verbatim>\<open>outputs\<close>. The code
  reaches that fallback only when \<^verbatim>\<open>typeof NodeClass.getMetadata\<close> is not
  \<^verbatim>\<open>'function'\<close>, and every class that extends \<^verbatim>\<open>BaseNode\<close> inherits the static
  \<^verbatim>\<open>getMetadata\<close> of the base class, which throws. For the class that \<^verbatim>\<open>cli.js\<close>
  generates, which implements no \<^verbatim>\<open>getMetadata\<close> and whose constructor succeeds with
  no arguments, the inherited call throws, the \<^verbatim>\<open>catch\<close> returns \<^verbatim>\<open>null\<close>, and the
  fallback below it is never tried.
\<close>

theorem getNodeMetadata_scaffold_null:
  "static_getMetadata (scaffold_class nodeName className category) = Some BaseNode_getMetadata
   \<and> construct (scaffold_class nodeName className category) []
       = Inr \<lparr>inst_type = nodeName, inst_version = ''1.0.0'', inst_category = category,
              inst_class = className, inst_config = JUndefined\<rparr>
   \<and> getNodeMetadata (register [] (scaffold_class nodeName className category) nodeName) nodeName
       = None"
  by (simp add: getNodeMetadata_def register_def scaffold_class_def BaseNode_getMetadata_def
        BaseNode_constructor_def)

text \<open>
  C8. After any run of \<^verbatim>\<open>register\<close> calls on a new registry, \<^verbatim>\<open>getAvailableTypes\<close>
  lists exactly the types that were registered, each once; the class stored for a type is
  the one registered last; and one more \<^verbatim>\<open>register(nodeClass, t)\<close> makes
  \<^verbatim>\<open>create(t, config)\<close> construct that class, with \<open>t\<close> listed once, the list
  unchanged if \<open>t\<close> was registered before.
\<close>

theorem getAvailableTypes_register_all:
  "set (getAvailableTypes (register_all [] calls)) = snd ` set calls
   \<and> distinct (getAvailableTypes (register_all [] calls))
   \<and> map_of (register_all [] calls) t = last_registered calls t
   \<and> create (register (register_all [] calls) nodeClass t) t config = construct nodeClass [config]
   \<and> count_list (getAvailableTypes (register (register_all [] calls) nodeClass t)) t = 1
   \<and> getAvailableTypes (register (register_all [] calls) nodeClass t)
       = (if t \<in> snd ` set calls then getAvailableTypes (register_all [] calls)
          else getAvailableTypes (register_all [] calls) @ [t])"
proof -
  let ?nodes = "register_all [] calls"
  have k: "distinct (map fst ?nodes)" "set (map fst ?nodes) = snd ` set calls"
    using register_all_keys [of "[]" calls] by simp_all
  have l: "map_of ?nodes t = last_registered calls t"
    by (simp add: register_all_lookup split: option.splits)
  have c: "create (register ?nodes nodeClass t) t config = construct nodeClass [config]"
    by (simp add: create_def register_def map_of_map_set)
  have d: "distinct (map fst (register ?nodes nodeClass t))"
    using k(1) by (simp add: register_def distinct_map_set)
  have m: "t \<in> set (map fst (register ?nodes nodeClass t))"
    by (simp add: register_def keys_map_set)
  have n: "count_list (getAvailableTypes (register ?nodes nodeClass t)) t = 1"
    using d m by (simp add: getAvailableTypes_def count_list_distinct)
  have p: "getAvailableTypes (register ?nodes nodeClass t)
       = (if t \<in> snd ` set calls then getAvailableTypes ?nodes else getAvailableTypes ?nodes @ [t])"
    using k(2) by (simp add: getAvailableTypes_def register_def keys_map_set)
  from k l c n p show ?thesis
    by (simp add: getAvailableTypes_def)
qed

subsection \<open>DataFilterNode.execute\<close>

lemmas eval_unfold =
  eval_condition_def bind_err_def get_prop_key_def obj_get_def js_greater_def js_less_def
  number_less_def

lemmas holds_unfold =
  condition_holds_def operator_holds_def bind_err_def get_prop_key_def obj_get_def js_greater_def
  js_less_def number_less_def sublist_Cons_right

lemma get_prop_value_after_field:
  "get_prop h condition ''field'' = Inr x \<Longrightarrow> \<exists>v. get_prop h condition ''value'' = Inr v"
  by (cases condition)
     (auto simp: intrinsic_get_def function_prototype_get_def object_static_methods_def
        function_prototype_methods_def)

lemma str_includes_sublist: "str_includes s t = sublist t s"
  by (induction s) (simp_all add: sublist_Cons_right)

text \<open>
  The callback of the code returns \<^verbatim>\<open>true\<close> exactly on the items that satisfy the
  condition.
\<close>

lemma condition_holds_eval:
  "condition_holds h item condition \<longleftrightarrow> eval_condition h item condition = Inr True"
proof (cases "get_prop h condition ''field''")
  case (Inl e)
  then show ?thesis
    by (simp add: condition_holds_def eval_condition_def bind_err_def)
next
  case (Inr field)
  then obtain v where v: "get_prop h condition ''value'' = Inr v"
    using get_prop_value_after_field by blast
  show ?thesis
  proof (cases "get_prop_key h item field")
    case (Inl e)
    with Inr show ?thesis
      by (simp add: condition_holds_def eval_condition_def bind_err_def)
  next
    case fv: (Inr fieldValue)
    show ?thesis
    proof (cases "get_prop h condition ''operator''")
      case (Inl e)
      with Inr fv show ?thesis
        by (simp add: condition_holds_def eval_condition_def bind_err_def)
    next
      case op: (Inr operator)
      from Inr fv op v show ?thesis
        by (auto simp: condition_holds_def operator_holds_def eval_condition_def bind_err_def
              str_includes_sublist split: sum.splits)
    qed
  qed
qed

lemma satisfies_every_eval:
  "satisfies_every h cs item = (\<forall>c \<in> set cs. eval_condition h item c = Inr True)"
  by (simp add: satisfies_every_def condition_holds_eval)

lemma every_condition_ok:
  "(\<forall>c \<in> set cs. \<exists>b. eval_condition h item c = Inr b) \<Longrightarrow>
   every_condition h item cs = Inr (satisfies_every h cs item)"
proof (induction cs)
  case Nil
  then show ?case by (simp add: satisfies_every_eval)
next
  case (Cons c cs)
  then obtain b where b: "eval_condition h item c = Inr b" by auto
  from Cons have ih: "every_condition h item cs = Inr (satisfies_every h cs item)" by simp
  show ?case
    using b ih by (cases b) (simp_all add: bind_err_def satisfies_every_eval)
qed

lemma filter_items_ok:
  assumes c: "get_prop h input ''conditions'' = Inr (JArr cs)"
      and ok: "\<forall>item \<in> set items. \<forall>c \<in> set cs. \<exists>b. eval_condition h item c = Inr b"
  shows "filter_items h input items = Inr (filter (satisfies_every h cs) items)"
  using ok
proof (induction items)
  case Nil
  then show ?case by simp
next
  case (Cons item items)
  then have "every_condition h item cs = Inr (satisfies_every h cs item)"
    by (simp add: every_condition_ok)
  then have p: "item_passes h input item = Inr (satisfies_every h cs item)"
    using c by (simp add: item_passes_def bind_err_def)
  from Cons have "filter_items h input items = Inr (filter (satisfies_every h cs) items)"
    by simp
  with p show ?case by (simp add: bind_err_def)
qed

lemma every_condition_sound:
  "every_condition h item cs = Inr b \<Longrightarrow> b = satisfies_every h cs item"
proof (induction cs arbitrary: b)
  case Nil
  then show ?case by (simp add: satisfies_every_eval)
next
  case (Cons c cs)
  from Cons.prems obtain x where x: "eval_condition h item c = Inr x"
    by (auto simp: bind_err_def split: sum.splits)
  show ?case
  proof (cases x)
    case True
    with Cons.prems x have "every_condition h item cs = Inr b"
      by (simp add: bind_err_def)
    then have "b = satisfies_every h cs item" by (rule Cons.IH)
    with True x show ?thesis by (simp add: satisfies_every_eval)
  next
    case False
    with Cons.prems x have "b = False" by (simp add: bind_err_def)
    with False x show ?thesis by (simp add: satisfies_every_eval)
  qed
qed

lemma filter_items_sound:
  assumes c: "get_prop h input ''conditions'' = Inr (JArr cs)"
  shows "filter_items h input items = Inr kept \<Longrightarrow> kept = filter (satisfies_every h cs) items"
proof (induction items arbitrary: kept)
  case Nil
  then show ?case by simp
next
  case (Cons item items)
  from Cons.prems obtain keep rest
    where k: "item_passes h input item = Inr keep"
      and r: "filter_items h input items = Inr rest"
      and kept: "kept = (if keep then item # rest else rest)"
    by (auto simp: bind_err_def split: sum.splits)
  from k c have "every_condition h item cs = Inr keep"
    by (simp add: item_passes_def bind_err_def)
  then have "keep = satisfies_every h cs item" by (rule every_condition_sound)
  moreover from r have "rest = filter (satisfies_every h cs) items" by (rule Cons.IH)
  ultimately show ?case using kept by simp
qed

text \<open>
  When a condition throws: on a \<^verbatim>\<open>null\<close> or \<^verbatim>\<open>undefined\<close> item always; on an object
  item never, for a condition object with a string \<^verbatim>\<open>field\<close>, provided
  \<^verbatim>\<open>greater_than\<close> and \<^verbatim>\<open>less_than\<close> compare numbers and \<^verbatim>\<open>contains\<close> compares
  values whose text the language fixes.
\<close>

lemma eval_condition_nullish_item:
  "nullish item \<Longrightarrow> \<exists>e. eval_condition h item condition = Inl e"
  by (cases "get_prop h condition ''field''")
     (simp_all add: eval_condition_def bind_err_def get_prop_key_def)

lemma DataFilterNode_execute_nullish_first:
  assumes d: "map_of kvs ''data'' = Some (JArr (item # rest))"
      and c: "map_of kvs ''conditions'' = Some (JArr (condition # more_conditions))"
      and n: "nullish item"
  shows "\<exists>msg. DataFilterNode_execute h startTime endTime (JObj kvs)
           = Inr \<lparr>success = False, data = None, error = Some msg, metrics = None\<rparr>"
proof -
  obtain e where "eval_condition h item condition = Inl e"
    using n eval_condition_nullish_item by blast
  then have "item_passes h (JObj kvs) item = Inl e"
    using c by (simp add: item_passes_def bind_err_def obj_get_def)
  then have "DataFilterNode_filtered h (JObj kvs) = Inl e"
    using d by (simp add: DataFilterNode_filtered_def bind_err_def obj_get_def)
  then show ?thesis
    by (simp add: DataFilterNode_execute_def)
qed

lemma eval_condition_object:
  assumes f: "map_of cprops ''field'' = Some (JStr field)"
      and o: "map_of cprops ''operator'' = Some (JStr operator)"
      and v: "map_of cprops ''value'' = Some v"
  shows "eval_condition h (JObj props) (JObj cprops) =
       (if operator = ''equals'' then Inr (strict_eq h (obj_get props field) v)
        else if operator = ''not_equals'' then Inr (\<not> strict_eq h (obj_get props field) v)
        else if operator = ''greater_than'' then js_greater h (obj_get props field) v
        else if operator = ''less_than'' then js_less h (obj_get props field) v
        else if operator = ''contains'' then
          bind_err (js_to_string h (obj_get props field)) (\<lambda>s.
          bind_err (js_to_string h v) (\<lambda>t. Inr (str_includes s t)))
        else Inr False)"
proof -
  have "obj_get cprops ''field'' = JStr field" "obj_get cprops ''operator'' = JStr operator"
       "obj_get cprops ''value'' = v"
    using f o v by (simp_all add: obj_get_def)
  then show ?thesis
    by (simp add: eval_condition_def bind_err_def get_prop_key_def)
qed

lemma printable_to_string: "printable v \<Longrightarrow> \<exists>s. js_to_string h v = Inr s"
  by (cases v) auto

lemma numeric_greater: "numeric_prim a \<Longrightarrow> numeric_prim b \<Longrightarrow> \<exists>r. js_greater h a b = Inr r"
  by (cases a; cases b) (simp_all add: js_greater_def)

lemma numeric_less: "numeric_prim a \<Longrightarrow> numeric_prim b \<Longrightarrow> \<exists>r. js_less h a b = Inr r"
  by (cases a; cases b) (simp_all add: js_less_def)

lemma eval_condition_returns:
  assumes f: "map_of cprops ''field'' = Some (JStr field)"
      and o: "map_of cprops ''operator'' = Some (JStr operator)"
      and v: "map_of cprops ''value'' = Some v"
      and n: "operator = ''greater_than'' \<or> operator = ''less_than''
                \<Longrightarrow> numeric_prim (obj_get props field) \<and> numeric_prim v"
      and p: "operator = ''contains'' \<Longrightarrow> printable (obj_get props field) \<and> printable v"
  shows "\<exists>b. eval_condition h (JObj props) (JObj cprops) = Inr b"
proof -
  let ?fv = "obj_get props field"
  have g: "operator = ''greater_than'' \<Longrightarrow> \<exists>r. js_greater h ?fv v = Inr r"
    using n numeric_greater by blast
  have l: "operator = ''less_than'' \<Longrightarrow> \<exists>r. js_less h ?fv v = Inr r"
    using n numeric_less by blast
  have c: "operator = ''contains'' \<Longrightarrow>
             (\<exists>s. js_to_string h ?fv = Inr s) \<and> (\<exists>s. js_to_string h v = Inr s)"
    using p printable_to_string by blast
  show ?thesis
    unfolding eval_condition_object [OF f o v] using g l c by (auto simp: bind_err_def)
qed

text \<open>What the operators mean on two numbers and on two strings.\<close>

lemma condition_holds_object:
  assumes f: "map_of cprops ''field'' = Some (JStr field)"
      and o: "map_of cprops ''operator'' = Some (JStr operator)"
      and v: "map_of cprops ''value'' = Some v"
  shows "condition_holds h (JObj props) (JObj cprops)
           = operator_holds h (JStr operator) (obj_get props field) v"
proof -
  have "obj_get cprops ''field'' = JStr field" "obj_get cprops ''operator'' = JStr operator"
       "obj_get cprops ''value'' = v"
    using f o v by (simp_all add: obj_get_def)
  then show ?thesis
    by (simp add: condition_holds_def get_prop_key_def bind_err_def)
qed

lemma condition_holds_numbers:
  assumes f: "map_of cprops ''field'' = Some (JStr field)"
      and o: "map_of cprops ''operator'' = Some (JStr operator)"
      and v: "map_of cprops ''value'' = Some (JNum b)"
      and a: "map_of props field = Some (JNum a)"
  shows "(operator = ''equals'' \<longrightarrow> condition_holds h (JObj props) (JObj cprops) = (a = b))
       \<and> (operator = ''not_equals'' \<longrightarrow> condition_holds h (JObj props) (JObj cprops) = (a \<noteq> b))
       \<and> (operator = ''greater_than'' \<longrightarrow> condition_holds h (JObj props) (JObj cprops) = (b < a))
       \<and> (operator = ''less_than'' \<longrightarrow> condition_holds h (JObj props) (JObj cprops) = (a < b))
       \<and> (operator = ''contains'' \<and> safe_integer a \<and> safe_integer b \<longrightarrow>
            condition_holds h (JObj props) (JObj cprops) = sublist (int_decimal b) (int_decimal a))
       \<and> (operator \<notin> set operators \<longrightarrow> \<not> condition_holds h (JObj props) (JObj cprops))"
  using a
  by (simp add: condition_holds_object [OF f o v] operator_holds_def obj_get_def js_greater_def
        js_less_def number_less_def operators_def)

lemma condition_holds_strings:
  assumes f: "map_of cprops ''field'' = Some (JStr field)"
      and o: "map_of cprops ''operator'' = Some (JStr operator)"
      and v: "map_of cprops ''value'' = Some (JStr t)"
      and a: "map_of props field = Some (JStr s)"
  shows "(operator = ''equals'' \<longrightarrow> condition_holds h (JObj props) (JObj cprops) = (s = t))
       \<and> (operator = ''not_equals'' \<longrightarrow> condition_holds h (JObj props) (JObj cprops) = (s \<noteq> t))
       \<and> (operator = ''greater_than'' \<longrightarrow> condition_holds h (JObj props) (JObj cprops) = str_less t s)
       \<and> (operator = ''less_than'' \<longrightarrow> condition_holds h (JObj props) (JObj cprops) = str_less s t)
       \<and> (operator = ''contains'' \<longrightarrow> condition_holds h (JObj props) (JObj cprops) = sublist t s)
       \<and> (operator \<notin> set operators \<longrightarrow> \<not> condition_holds h (JObj props) (JObj cprops))"
  using a
  by (simp add: condition_holds_object [OF f o v] operator_holds_def obj_get_def js_greater_def
        js_less_def operators_def)

text \<open>
  The claim C6 as stated (every input whose \<^verbatim>\<open>data\<close> and \<^verbatim>\<open>conditions\<close> are arrays
  succeeds) fails on \<^verbatim>\<open>data = [null]\<close> with one condition: reading a field of
  \<^verbatim>\<open>null\<close> throws, and \<^verbatim>\<open>execute\<close> turns that into a failure envelope.
\<close>

theorem DataFilterNode_execute_null_item:
  "\<exists>msg. DataFilterNode_execute quiet_host 0 0
     (JObj [(''data'', JArr [JNull]),
            (''conditions'', JArr [JObj [(''field'', JStr ''age''), (''operator'', JStr ''greater_than''),
                                         (''value'', JNum 30)]])])
   = Inr \<lparr>success = False, data = None, error = Some msg, metrics = None\<rparr>"
  by (simp add: DataFilterNode_execute_def DataFilterNode_filtered_def item_passes_def eval_unfold)

text \<open>
  C6, amended. For every input whose \<^verbatim>\<open>data\<close> and \<^verbatim>\<open>conditions\<close> fields are
  arrays: whenever \<^verbatim>\<open>execute\<close> succeeds, \<^verbatim>\<open>data.filtered\<close> is the subsequence of
  \<^verbatim>\<open>input.data\<close> whose items satisfy every condition under the operator semantics,
  and \<^verbatim>\<open>data.filtered_count\<close> and \<^verbatim>\<open>metrics.recordsProcessed\<close> are its length; and
  \<^verbatim>\<open>execute\<close> succeeds whenever no condition throws on any item. The operator
  semantics: on two numbers \<^verbatim>\<open>equals\<close>, \<^verbatim>\<open>not_equals\<close>, \<^verbatim>\<open>greater_than\<close> and
  \<^verbatim>\<open>less_than\<close> are \<open>=\<close>, \<open>\<noteq>\<close>, \<open>>\<close> and \<open><\<close>, and \<^verbatim>\<open>contains\<close> compares the
  decimal texts of safe integers; on two strings they are equality, inequality, the
  order by code units, and \<^verbatim>\<open>contains\<close> is containment of the text; an operator outside the five
  never holds.
\<close>

theorem DataFilterNode_execute_filters:
  assumes d: "map_of kvs ''data'' = Some (JArr items)"
      and c: "map_of kvs ''conditions'' = Some (JArr conditions)"
  shows "(\<forall>env. DataFilterNode_execute h startTime endTime (JObj kvs) = Inr env \<and> success env \<longrightarrow>
            env = \<lparr>success = True,
                   data = Some (JObj [(''filtered'', JArr (filter (satisfies_every h conditions) items)),
                                      (''filtered_count'',
                                         JNum (int (length (filter (satisfies_every h conditions) items))))]),
                   error = None,
                   metrics = Some \<lparr>executionTime = endTime - startTime,
                                    recordsProcessed =
                                      JNum (int (length (filter (satisfies_every h conditions) items)))\<rparr>\<rparr>)
         \<and> ((\<forall>item \<in> set items. \<forall>condition \<in> set conditions.
                \<exists>b. eval_condition h item condition = Inr b) \<longrightarrow>
            (\<exists>env. DataFilterNode_execute h startTime endTime (JObj kvs) = Inr env \<and> success env))
         \<and> subseq (filter (satisfies_every h conditions) items) items
         \<and> (\<forall>props cprops field operator a b.
              map_of cprops ''field'' = Some (JStr field)
              \<and> map_of cprops ''operator'' = Some (JStr operator)
              \<and> map_of cprops ''value'' = Some (JNum b)
              \<and> map_of props field = Some (JNum a) \<longrightarrow>
                (operator = ''equals'' \<longrightarrow> condition_holds h (JObj props) (JObj cprops) = (a = b))
              \<and> (operator = ''not_equals'' \<longrightarrow> condition_holds h (JObj props) (JObj cprops) = (a \<noteq> b))
              \<and> (operator = ''greater_than'' \<longrightarrow> condition_holds h (JObj props) (JObj cprops) = (b < a))
              \<and> (operator = ''less_than'' \<longrightarrow> condition_holds h (JObj props) (JObj cprops) = (a < b))
              \<and> (operator = ''contains'' \<and> safe_integer a \<and> safe_integer b \<longrightarrow>
                   condition_holds h (JObj props) (JObj cprops)
                     = sublist (int_decimal b) (int_decimal a))
              \<and> (operator \<notin> set operators \<longrightarrow> \<not> condition_holds h (JObj props) (JObj cprops)))
         \<and> (\<forall>props cprops field operator s t.
              map_of cprops ''field'' = Some (JStr field)
              \<and> map_of cprops ''operator'' = Some (JStr operator)
              \<and> map_of cprops ''value'' = Some (JStr t)
              \<and> map_of props field = Some (JStr s) \<longrightarrow>
                (operator = ''equals'' \<longrightarrow> condition_holds h (JObj props) (JObj cprops) = (s = t))
              \<and> (operator = ''not_equals'' \<longrightarrow> condition_holds h (JObj props) (JObj cprops) = (s \<noteq> t))
              \<and> (operator = ''greater_than'' \<longrightarrow>
                   condition_holds h (JObj props) (JObj cprops) = str_less t s)
              \<and> (operator = ''less_than'' \<longrightarrow>
                   condition_holds h (JObj props) (JObj cprops) = str_less s t)
              \<and> (operator = ''contains'' \<longrightarrow> condition_holds h (JObj props) (JObj cprops) = sublist t s)
              \<and> (operator \<notin> set operators \<longrightarrow> \<not> condition_holds h (JObj props) (JObj cprops)))"
proof -
  have gc: "get_prop h (JObj kvs) ''conditions'' = Inr (JArr conditions)"
    using c by (simp add: obj_get_def)
  have p1: "\<forall>env. DataFilterNode_execute h startTime endTime (JObj kvs) = Inr env \<and> success env \<longrightarrow>
            env = \<lparr>success = True,
                   data = Some (JObj [(''filtered'', JArr (filter (satisfies_every h conditions) items)),
                                      (''filtered_count'',
                                         JNum (int (length (filter (satisfies_every h conditions) items))))]),
                   error = None,
                   metrics = Some \<lparr>executionTime = endTime - startTime,
                                    recordsProcessed =
                                      JNum (int (length (filter (satisfies_every h conditions) items)))\<rparr>\<rparr>"
  proof (intro allI impI)
    fix env
    assume a: "DataFilterNode_execute h startTime endTime (JObj kvs) = Inr env \<and> success env"
    then obtain kept where k: "DataFilterNode_filtered h (JObj kvs) = Inr kept"
      by (auto simp: DataFilterNode_execute_def split: sum.splits)
    then have "filter_items h (JObj kvs) items = Inr kept"
      using d by (simp add: DataFilterNode_filtered_def bind_err_def obj_get_def)
    then have "kept = filter (satisfies_every h conditions) items"
      using gc filter_items_sound by blast
    with a k show "env = \<lparr>success = True,
                   data = Some (JObj [(''filtered'', JArr (filter (satisfies_every h conditions) items)),
                                      (''filtered_count'',
                                         JNum (int (length (filter (satisfies_every h conditions) items))))]),
                   error = None,
                   metrics = Some \<lparr>executionTime = endTime - startTime,
                                    recordsProcessed =
                                      JNum (int (length (filter (satisfies_every h conditions) items)))\<rparr>\<rparr>"
      by (auto simp: DataFilterNode_execute_def)
  qed
  have p2: "(\<forall>item \<in> set items. \<forall>condition \<in> set conditions.
                \<exists>b. eval_condition h item condition = Inr b) \<longrightarrow>
            (\<exists>env. DataFilterNode_execute h startTime endTime (JObj kvs) = Inr env \<and> success env)"
  proof
    assume ok: "\<forall>item \<in> set items. \<forall>condition \<in> set conditions.
                  \<exists>b. eval_condition h item condition = Inr b"
    from gc have "filter_items h (JObj kvs) items = Inr (filter (satisfies_every h conditions) items)"
      using ok by (rule filter_items_ok)
    then have "DataFilterNode_filtered h (JObj kvs) = Inr (filter (satisfies_every h conditions) items)"
      using d by (simp add: DataFilterNode_filtered_def bind_err_def obj_get_def)
    then show "\<exists>env. DataFilterNode_execute h startTime endTime (JObj kvs) = Inr env \<and> success env"
      by (simp add: DataFilterNode_execute_def)
  qed
  have p3: "subseq (filter (satisfies_every h conditions) items) items"
    by simp
  have p4: "\<forall>props cprops field operator a b.
              map_of cprops ''field'' = Some (JStr field)
              \<and> map_of cprops ''operator'' = Some (JStr operator)
              \<and> map_of cprops ''value'' = Some (JNum b)
              \<and> map_of props field = Some (JNum a) \<longrightarrow>
                (operator = ''equals'' \<longrightarrow> condition_holds h (JObj props) (JObj cprops) = (a = b))
              \<and> (operator = ''not_equals'' \<longrightarrow> condition_holds h (JObj props) (JObj cprops) = (a \<noteq> b))
              \<and> (operator = ''greater_than'' \<longrightarrow> condition_holds h (JObj props) (JObj cprops) = (b < a))
              \<and> (operator = ''less_than'' \<longrightarrow> condition_holds h (JObj props) (JObj cprops) = (a < b))
              \<and> (operator = ''contains'' \<and> safe_integer a \<and> safe_integer b \<longrightarrow>
                   condition_holds h (JObj props) (JObj cprops)
                     = sublist (int_decimal b) (int_decimal a))
              \<and> (operator \<notin> set operators \<longrightarrow> \<not> condition_holds h (JObj props) (JObj cprops))"
  proof (intro allI impI)
    fix props cprops field operator and a b :: int
    assume "map_of cprops ''field'' = Some (JStr field)
              \<and> map_of cprops ''operator'' = Some (JStr operator)
              \<and> map_of cprops ''value'' = Some (JNum b)
              \<and> map_of props field = Some (JNum a)"
    then have f: "map_of cprops ''field'' = Some (JStr field)"
      and o: "map_of cprops ''operator'' = Some (JStr operator)"
      and v: "map_of cprops ''value'' = Some (JNum b)"
      and a: "map_of props field = Some (JNum a)"
      by simp_all
    show "(operator = ''equals'' \<longrightarrow> condition_holds h (JObj props) (JObj cprops) = (a = b))
              \<and> (operator = ''not_equals'' \<longrightarrow> condition_holds h (JObj props) (JObj cprops) = (a \<noteq> b))
              \<and> (operator = ''greater_than'' \<longrightarrow> condition_holds h (JObj props) (JObj cprops) = (b < a))
              \<and> (operator = ''less_than'' \<longrightarrow> condition_holds h (JObj props) (JObj cprops) = (a < b))
              \<and> (operator = ''contains'' \<and> safe_integer a \<and> safe_integer b \<longrightarrow>
                   condition_holds h (JObj props) (JObj cprops)
                     = sublist (int_decimal b) (int_decimal a))
              \<and> (operator \<notin> set operators \<longrightarrow> \<not> condition_holds h (JObj props) (JObj cprops))"
      by (rule condition_holds_numbers [OF f o v a])
  qed
  have p5: "\<forall>props cprops field operator s t.
              map_of cprops ''field'' = Some (JStr field)
              \<and> map_of cprops ''operator'' = Some (JStr operator)
              \<and> map_of cprops ''value'' = Some (JStr t)
              \<and> map_of props field = Some (JStr s) \<longrightarrow>
                (operator = ''equals'' \<longrightarrow> condition_holds h (JObj props) (JObj cprops) = (s = t))
              \<and> (operator = ''not_equals'' \<longrightarrow> condition_holds h (JObj props) (JObj cprops) = (s \<noteq> t))
              \<and> (operator = ''greater_than'' \<longrightarrow>
                   condition_holds h (JObj props) (JObj cprops) = str_less t s)
              \<and> (operator = ''less_than'' \<longrightarrow>
                   condition_holds h (JObj props) (JObj cprops) = str_less s t)
              \<and> (operator = ''contains'' \<longrightarrow> condition_holds h (JObj props) (JObj cprops) = sublist t s)
              \<and> (operator \<notin> set operators \<longrightarrow> \<not> condition_holds h (JObj props) (JObj cprops))"
  proof (intro allI impI)
    fix props cprops field operator s t
    assume "map_of cprops ''field'' = Some (JStr field)
              \<and> map_of cprops ''operator'' = Some (JStr operator)
              \<and> map_of cprops ''value'' = Some (JStr t)
              \<and> map_of props field = Some (JStr s)"
    then have f: "map_of cprops ''field'' = Some (JStr field)"
      and o: "map_of cprops ''operator'' = Some (JStr operator)"
      and v: "map_of cprops ''value'' = Some (JStr t)"
      and a: "map_of props field = Some (JStr s)"
      by simp_all
    show "(operator = ''equals'' \<longrightarrow> condition_holds h (JObj props) (JObj cprops) = (s = t))
              \<and> (operator = ''not_equals'' \<longrightarrow> condition_holds h (JObj props) (JObj cprops) = (s \<noteq> t))
              \<and> (operator = ''greater_than'' \<longrightarrow>
                   condition_holds h (JObj props) (JObj cprops) = str_less t s)
              \<and> (operator = ''less_than'' \<longrightarrow>
                   condition_holds h (JObj props) (JObj cprops) = str_less s t)
              \<and> (operator = ''contains'' \<longrightarrow> condition_holds h (JObj props) (JObj cprops) = sublist t s)
              \<and> (operator \<notin> set operators \<longrightarrow> \<not> condition_holds h (JObj props) (JObj cprops))"
      by (rule condition_holds_strings [OF f o v a])
  qed
  show ?thesis
    by (rule conjI [OF p1 conjI [OF p2 conjI [OF p3 conjI [OF p4 p5]]]])
qed

text \<open>
  The spec's scenario: \<^verbatim>\<open>data=[{age:25},{age:31},{age:40}]\<close> with the condition
  \<^verbatim>\<open>age greater_than 30\<close> gives \<^verbatim>\<open>filtered=[{age:31},{age:40}]\<close> and
  \<^verbatim>\<open>filtered_count: 2\<close>. And a second one with all five operators, each of them the
  only reason one of the records is left out:
  \<^verbatim>\<open>age greater_than 30\<close>, \<^verbatim>\<open>age less_than 50\<close>, \<^verbatim>\<open>city equals "Rome"\<close>,
  \<^verbatim>\<open>status not_equals "banned"\<close>, \<^verbatim>\<open>name contains "o"\<close>.
\<close>

theorem DataFilterNode_execute_filters_witness:
  "DataFilterNode_execute quiet_host 100 103
     (JObj [(''data'', JArr [JObj [(''age'', JNum 25)], JObj [(''age'', JNum 31)], JObj [(''age'', JNum 40)]]),
            (''conditions'', JArr [JObj [(''field'', JStr ''age''), (''operator'', JStr ''greater_than''),
                                         (''value'', JNum 30)]])])
   = Inr \<lparr>success = True,
          data = Some (JObj [(''filtered'', JArr [JObj [(''age'', JNum 31)], JObj [(''age'', JNum 40)]]),
                             (''filtered_count'', JNum 2)]),
          error = None,
          metrics = Some \<lparr>executionTime = 3, recordsProcessed = JNum 2\<rparr>\<rparr>
   \<and> DataFilterNode_execute quiet_host 0 1
     (JObj [(''data'',
               JArr [JObj [(''name'', JStr ''Ann''), (''age'', JNum 25), (''city'', JStr ''Rome''),
                           (''status'', JStr ''active'')],
                     JObj [(''name'', JStr ''Bob''), (''age'', JNum 31), (''city'', JStr ''Rome''),
                           (''status'', JStr ''active'')],
                     JObj [(''name'', JStr ''Tom''), (''age'', JNum 40), (''city'', JStr ''Oslo''),
                           (''status'', JStr ''active'')],
                     JObj [(''name'', JStr ''Rob''), (''age'', JNum 35), (''city'', JStr ''Rome''),
                           (''status'', JStr ''banned'')],
                     JObj [(''name'', JStr ''Joe''), (''age'', JNum 60), (''city'', JStr ''Rome''),
                           (''status'', JStr ''active'')],
                     JObj [(''name'', JStr ''Eva''), (''age'', JNum 33), (''city'', JStr ''Rome''),
                           (''status'', JStr ''active'')]]),
            (''conditions'',
               JArr [JObj [(''field'', JStr ''age''), (''operator'', JStr ''greater_than''),
                           (''value'', JNum 30)],
                     JObj [(''field'', JStr ''age''), (''operator'', JStr ''less_than''),
                           (''value'', JNum 50)],
                     JObj [(''field'', JStr ''city''), (''operator'', JStr ''equals''),
                           (''value'', JStr ''Rome'')],
                     JObj [(''field'', JStr ''status''), (''operator'', JStr ''not_equals''),
                           (''value'', JStr ''banned'')],
                     JObj [(''field'', JStr ''name''), (''operator'', JStr ''contains''),
                           (''value'', JStr ''o'')]])])
   = Inr \<lparr>success = True,
          data = Some (JObj [(''filtered'',
                               JArr [JObj [(''name'', JStr ''Bob''), (''age'', JNum 31),
                                           (''city'', JStr ''Rome''), (''status'', JStr ''active'')]]),
                             (''filtered_count'', JNum 1)]),
          error = None,
          metrics = Some \<lparr>executionTime = 1, recordsProcessed = JNum 1\<rparr>\<rparr>"
proof -
  let ?items = "[JObj [(''age'', JNum 25)], JObj [(''age'', JNum 31)], JObj [(''age'', JNum 40)]]"
  let ?conds = "[JObj [(''field'', JStr ''age''), (''operator'', JStr ''greater_than''), (''value'', JNum 30)]]"
  let ?kvs = "[(''data'', JArr ?items), (''conditions'', JArr ?conds)]"
  have d: "map_of ?kvs ''data'' = Some (JArr ?items)" by simp
  have c: "map_of ?kvs ''conditions'' = Some (JArr ?conds)" by simp
  have ok: "\<forall>item \<in> set ?items. \<forall>condition \<in> set ?conds.
              \<exists>b. eval_condition quiet_host item condition = Inr b"
    by (auto simp: eval_unfold)
  have f: "filter (satisfies_every quiet_host ?conds) ?items
             = [JObj [(''age'', JNum 31)], JObj [(''age'', JNum 40)]]"
    by (simp add: satisfies_every_def holds_unfold)
  note t = DataFilterNode_execute_filters [OF d c, of quiet_host 100 103]
  from t [THEN conjunct2, THEN conjunct1] ok
  obtain env where e: "DataFilterNode_execute quiet_host 100 103 (JObj ?kvs) = Inr env" "success env"
    by blast
  from t [THEN conjunct1, rule_format, of env] e
  have "env = \<lparr>success = True,
          data = Some (JObj [(''filtered'', JArr (filter (satisfies_every quiet_host ?conds) ?items)),
                             (''filtered_count'',
                                JNum (int (length (filter (satisfies_every quiet_host ?conds) ?items))))]),
          error = None,
          metrics = Some \<lparr>executionTime = 103 - 100,
                           recordsProcessed =
                             JNum (int (length (filter (satisfies_every quiet_host ?conds) ?items)))\<rparr>\<rparr>"
    by blast
  with e(1) have first: "DataFilterNode_execute quiet_host 100 103 (JObj ?kvs)
     = Inr \<lparr>success = True,
          data = Some (JObj [(''filtered'', JArr [JObj [(''age'', JNum 31)], JObj [(''age'', JNum 40)]]),
                             (''filtered_count'', JNum 2)]),
          error = None,
          metrics = Some \<lparr>executionTime = 3, recordsProcessed = JNum 2\<rparr>\<rparr>"
    unfolding f by simp
  let ?bob = "JObj [(''name'', JStr ''Bob''), (''age'', JNum 31), (''city'', JStr ''Rome''),
                    (''status'', JStr ''active'')]"
  let ?items2 = "[JObj [(''name'', JStr ''Ann''), (''age'', JNum 25), (''city'', JStr ''Rome''),
                           (''status'', JStr ''active'')],
                     ?bob,
                     JObj [(''name'', JStr ''Tom''), (''age'', JNum 40), (''city'', JStr ''Oslo''),
                           (''status'', JStr ''active'')],
                     JObj [(''name'', JStr ''Rob''), (''age'', JNum 35), (''city'', JStr ''Rome''),
                           (''status'', JStr ''banned'')],
                     JObj [(''name'', JStr ''Joe''), (''age'', JNum 60), (''city'', JStr ''Rome''),
                           (''status'', JStr ''active'')],
                     JObj [(''name'', JStr ''Eva''), (''age'', JNum 33), (''city'', JStr ''Rome''),
                           (''status'', JStr ''active'')]]"
  let ?conds2 = "[JObj [(''field'', JStr ''age''), (''operator'', JStr ''greater_than''),
                           (''value'', JNum 30)],
                     JObj [(''field'', JStr ''age''), (''operator'', JStr ''less_than''),
                           (''value'', JNum 50)],
                     JObj [(''field'', JStr ''city''), (''operator'', JStr ''equals''),
                           (''value'', JStr ''Rome'')],
                     JObj [(''field'', JStr ''status''), (''operator'', JStr ''not_equals''),
                           (''value'', JStr ''banned'')],
                     JObj [(''field'', JStr ''name''), (''operator'', JStr ''contains''),
                           (''value'', JStr ''o'')]]"
  let ?kvs2 = "[(''data'', JArr ?items2), (''conditions'', JArr ?conds2)]"
  have d2: "map_of ?kvs2 ''data'' = Some (JArr ?items2)" by simp
  have c2: "map_of ?kvs2 ''conditions'' = Some (JArr ?conds2)" by simp
  have ok2: "\<forall>item \<in> set ?items2. \<forall>condition \<in> set ?conds2.
              \<exists>b. eval_condition quiet_host item condition = Inr b"
    by (auto simp: eval_unfold)
  have f2: "filter (satisfies_every quiet_host ?conds2) ?items2 = [?bob]"
    by (simp add: satisfies_every_def holds_unfold)
  note t2 = DataFilterNode_execute_filters [OF d2 c2, of quiet_host 0 1]
  from t2 [THEN conjunct2, THEN conjunct1] ok2
  obtain env2 where e2: "DataFilterNode_execute quiet_host 0 1 (JObj ?kvs2) = Inr env2" "success env2"
    by blast
  from t2 [THEN conjunct1, rule_format, of env2] e2
  have "env2 = \<lparr>success = True,
          data = Some (JObj [(''filtered'', JArr (filter (satisfies_every quiet_host ?conds2) ?items2)),
                             (''filtered_count'',
                                JNum (int (length (filter (satisfies_every quiet_host ?conds2) ?items2))))]),
          error = None,
          metrics = Some \<lparr>executionTime = 1 - 0,
                           recordsProcessed =
                             JNum (int (length (filter (satisfies_every quiet_host ?conds2) ?items2)))\<rparr>\<rparr>"
    by blast
  with e2(1) have second: "DataFilterNode_execute quiet_host 0 1 (JObj ?kvs2)
     = Inr \<lparr>success = True,
          data = Some (JObj [(''filtered'', JArr [?bob]), (''filtered_count'', JNum 1)]),
          error = None,
          metrics = Some \<lparr>executionTime = 1, recordsProcessed = JNum 1\<rparr>\<rparr>"
    unfolding f2 by simp
  from first second show ?thesis by simp
qed

lemma DataFilterNode_execute_resolves:
  "\<exists>env. DataFilterNode_execute h startTime endTime input = Inr env"
  by (simp add: DataFilterNode_execute_def split: sum.splits)

subsection \<open>FieldMapperNode\<close>

lemma FieldMapperNode_execute_resolves:
  "\<exists>env. FieldMapperNode_execute h startTime endTime input = Inr env"
  by (simp add: FieldMapperNode_execute_def split: sum.splits prod.splits)

text \<open>
  C7. On the single source object \<^verbatim>\<open>{first_name:"John"}\<close> with the mapping
  \<^verbatim>\<open>[{sourceField:"first_name", targetField:"firstName", transformation:"rename"}]\<close>,
  \<^verbatim>\<open>execute\<close> succeeds with \<^verbatim>\<open>data.mapped = {firstName:"John"}\<close>, an object and not
  a one-element array, and \<^verbatim>\<open>metrics.recordsProcessed = 1\<close>. So it is for every source
  object and every pair of field names: the one \<^verbatim>\<open>rename\<close> stores what the source
  answers for the source field under the target field.
\<close>

theorem FieldMapperNode_execute_rename:
  "FieldMapperNode_execute h startTime endTime
     (JObj [(''source'', JObj [(''first_name'', JStr ''John'')]),
            (''mapping'', JArr [JObj [(''sourceField'', JStr ''first_name''),
                                      (''targetField'', JStr ''firstName''),
                                      (''transformation'', JStr ''rename'')]])])
   = Inr \<lparr>success = True,
          data = Some (JObj [(''mapped'', JObj [(''firstName'', JStr ''John'')])]),
          error = None,
          metrics = Some \<lparr>executionTime = endTime - startTime, recordsProcessed = JNum 1\<rparr>\<rparr>
   \<and> FieldMapperNode_execute h startTime endTime
     (JObj [(''source'', JObj props),
            (''mapping'', JArr [JObj [(''sourceField'', JStr sourceField),
                                      (''targetField'', JStr targetField),
                                      (''transformation'', JStr ''rename'')]])])
   = Inr \<lparr>success = True,
          data = Some (JObj [(''mapped'', JObj (obj_set [] targetField (obj_get props sourceField)))]),
          error = None,
          metrics = Some \<lparr>executionTime = endTime - startTime, recordsProcessed = JNum 1\<rparr>\<rparr>"
  by (simp add: FieldMapperNode_execute_def map_item_def apply_mapping_def assign_target_def
        bind_err_def get_prop_key_def obj_get_def obj_set_def)

lemma apply_mapping_null_item: "\<exists>e. apply_mapping h JNull result m = Inl e"
  by (cases "get_prop h m ''sourceField''")
     (simp_all add: apply_mapping_def bind_err_def get_prop_key_def)

text \<open>
  C10. For every input object whose \<^verbatim>\<open>mapping\<close> is an array and whose \<^verbatim>\<open>source\<close> is
  \<^verbatim>\<open>null\<close>, \<^verbatim>\<open>validate\<close> returns \<^verbatim>\<open>true\<close>; and when the mapping is not empty,
  \<^verbatim>\<open>execute\<close> on that input returns a failure envelope (every mapping reads a
  field of the \<^verbatim>\<open>null\<close> item first).
\<close>

theorem FieldMapperNode_validate_null_source:
  assumes s: "map_of kvs ''source'' = Some JNull"
      and m: "map_of kvs ''mapping'' = Some (JArr ms)"
  shows "FieldMapperNode_validate h (JObj kvs) = Inr True
     \<and> (ms \<noteq> [] \<longrightarrow>
          (\<exists>msg. FieldMapperNode_execute h startTime endTime (JObj kvs)
             = Inr \<lparr>success = False, data = None, error = Some msg, metrics = None\<rparr>))"
proof -
  have v: "FieldMapperNode_validate h (JObj kvs) = Inr True"
    using s m
    by (simp add: FieldMapperNode_validate_def BaseNode_validate_def bind_err_def obj_get_def)
  have x: "\<exists>msg. FieldMapperNode_execute h startTime endTime (JObj kvs)
             = Inr \<lparr>success = False, data = None, error = Some msg, metrics = None\<rparr>"
    if "ms \<noteq> []"
  proof -
    from that obtain first rest where ms: "ms = first # rest" by (cases ms) auto
    obtain e where "apply_mapping h JNull [] first = Inl e"
      using apply_mapping_null_item by blast
    then have "map_item h (JObj kvs) JNull = Inl e"
      using m ms by (simp add: map_item_def bind_err_def obj_get_def)
    then show ?thesis
      using s by (simp add: FieldMapperNode_execute_def bind_err_def obj_get_def)
  qed
  from v x show ?thesis by blast
qed

theorem FieldMapperNode_validate_null_source_witness:
  "FieldMapperNode_validate quiet_host
     (JObj [(''source'', JNull),
            (''mapping'', JArr [JObj [(''sourceField'', JStr ''first_name''),
                                      (''targetField'', JStr ''firstName''),
                                      (''transformation'', JStr ''rename'')]])]) = Inr True
   \<and> (\<exists>msg. FieldMapperNode_execute quiet_host 0 1
     (JObj [(''source'', JNull),
            (''mapping'', JArr [JObj [(''sourceField'', JStr ''first_name''),
                                      (''targetField'', JStr ''firstName''),
                                      (''transformation'', JStr ''rename'')]])])
       = Inr \<lparr>success = False, data = None, error = Some msg, metrics = None\<rparr>)"
proof -
  let ?ms = "[JObj [(''sourceField'', JStr ''first_name''), (''targetField'', JStr ''firstName''),
                    (''transformation'', JStr ''rename'')]]"
  let ?kvs = "[(''source'', JNull), (''mapping'', JArr ?ms)]"
  have s: "map_of ?kvs ''source'' = Some JNull" by simp
  have m: "map_of ?kvs ''mapping'' = Some (JArr ?ms)" by simp
  have ne: "?ms \<noteq> []" by simp
  from FieldMapperNode_validate_null_source [OF s m, of quiet_host 0 1] ne show ?thesis
    by blast
qed

subsection \<open>MongoDBOperationsNode.execute\<close>

lemma PostgreSQLQueryNode_execute_resolves:
  "\<exists>env. PostgreSQLQueryNode_execute h config client startTime endTime input = Inr env"
  by (simp add: PostgreSQLQueryNode_execute_def split: sum.splits prod.splits)

text \<open>
  C3. The claim: for every input, \<^verbatim>\<open>null\<close> and \<^verbatim>\<open>undefined\<close> included, \<^verbatim>\<open>execute\<close>
  of each built-in node resolves to an envelope and never lets an exception out.
  \<^verbatim>\<open>DataFilterNode\<close>, \<^verbatim>\<open>FieldMapperNode\<close> and \<^verbatim>\<open>PostgreSQLQueryNode\<close> read
  their input inside the \<^verbatim>\<open>try\<close> and always resolve
  (\<open>DataFilterNode_execute_resolves\<close>, \<open>FieldMapperNode_execute_resolves\<close> for a
  function body that returns or throws, \<open>PostgreSQLQueryNode_execute_resolves\<close>);
  \<^verbatim>\<open>MongoDBOperationsNode.execute\<close> reads \<^verbatim>\<open>input.options\<close> before its \<^verbatim>\<open>try\<close>, so on
  \<^verbatim>\<open>null\<close> and on \<^verbatim>\<open>undefined\<close> the promise it returns is rejected with the
  \<^verbatim>\<open>TypeError\<close>, whatever the configuration and the driver.
\<close>

theorem MongoDBOperationsNode_execute_null_rejects:
  "(\<exists>e. MongoDBOperationsNode_execute h config operate startTime endTime JNull = Inl e)
   \<and> (\<exists>e. MongoDBOperationsNode_execute h config operate startTime endTime JUndefined = Inl e)"
  by (simp add: MongoDBOperationsNode_execute_def option_or_default_def bind_err_def)

end
